theory Spec2Isabelle
  imports Complex_Main
begin

section \<open>JavaScript values and library operations used by the program\<close>

text \<open>
  The program is TypeScript. A JavaScript \<^verbatim>\<open>number\<close> is modelled as an integer
  (\<^typ>\<open>int\<close>) where it is a counter, a version, a grid coordinate, a target index or a
  number in a tool argument. The source output of a connection is a rational number
  (\<^typ>\<open>rat\<close>): the serializer compares it with an integer loop counter, so what it
  does with a negative or a fractional output is part of the model. \<^verbatim>\<open>NaN\<close>, infinities
  and rounding are outside the model.
  A JavaScript string is a \<^typ>\<open>string\<close>; \<^verbatim>\<open>toLowerCase\<close> is modelled on
  the ASCII letters. A value of type \<^verbatim>\<open>unknown\<close> (node parameters, tool arguments) is a
  \<open>json\<close> value.
\<close>

datatype json =
    JNull
  | JBool bool
  | JNum int
  | JStr string
  | JArr "json list"
  | JObj "(string \<times> json) list"

text \<open>The typed error of the n8n API client (n8n-api.ts), a plain object.\<close>

datatype N8nApiErrorType =
  AUTHENTICATION | VALIDATION | NOT_FOUND | RATE_LIMIT | SERVER_ERROR | NETWORK

record N8nApiError =
  statusCode :: int
  api_message :: string
  errorType :: N8nApiErrorType
  api_recoverable :: bool
  details :: "json option"

text \<open>
  What a \<^verbatim>\<open>throw\<close> carries: an \<^verbatim>\<open>Error\<close> instance (\<^verbatim>\<open>new Error(message)\<close>, or the
  \<^verbatim>\<open>TypeError\<close> the runtime raises when a value that is not a function is called), or
  the plain \<^verbatim>\<open>N8nApiError\<close> object that the API client throws. \<open>error_message\<close> reads
  the \<^verbatim>\<open>message\<close> property.
\<close>

datatype js_error = Error string | TypeError string | Thrown N8nApiError

fun error_message :: "js_error \<Rightarrow> string" where
  "error_message (Error m) = m"
| "error_message (TypeError m) = m"
| "error_message (Thrown e) = api_message e"

text \<open>\<^verbatim>\<open>error instanceof Error\<close>.\<close>

fun instanceof_Error :: "js_error \<Rightarrow> bool" where
  "instanceof_Error (Thrown e) = False"
| "instanceof_Error e = True"

subsection \<open>Strings\<close>

definition toLowerChar :: "char \<Rightarrow> char" where
  "toLowerChar c =
     (case map_of (zip ''ABCDEFGHIJKLMNOPQRSTUVWXYZ'' ''abcdefghijklmnopqrstuvwxyz'') c of
        None \<Rightarrow> c
      | Some l \<Rightarrow> l)"

definition toLowerCase :: "string \<Rightarrow> string" where
  "toLowerCase s = map toLowerChar s"

text \<open>\<^verbatim>\<open>s.startsWith(p)\<close>, \<^verbatim>\<open>s.includes(p)\<close> and \<^verbatim>\<open>s.endsWith(p)\<close>.\<close>

fun startsWith :: "string \<Rightarrow> string \<Rightarrow> bool" where
  "startsWith s [] = True"
| "startsWith [] (p # ps) = False"
| "startsWith (c # cs) (p # ps) = (c = p \<and> startsWith cs ps)"

fun str_includes :: "string \<Rightarrow> string \<Rightarrow> bool" where
  "str_includes [] p = (p = [])"
| "str_includes (c # cs) p = (startsWith (c # cs) p \<or> str_includes cs p)"

definition endsWith :: "string \<Rightarrow> string \<Rightarrow> bool" where
  "endsWith s p = startsWith (rev s) (rev p)"

text \<open>\<^verbatim>\<open>parts.join(sep)\<close>.\<close>

fun join :: "string \<Rightarrow> string list \<Rightarrow> string" where
  "join sep [] = []"
| "join sep [x] = x"
| "join sep (x # y # xs) = x @ sep @ join sep (y # xs)"

text \<open>The decimal rendering of a natural number, as a template literal produces it.\<close>

definition digit_char :: "nat \<Rightarrow> char" where
  "digit_char d = ''0123456789'' ! d"

fun show_nat :: "nat \<Rightarrow> string" where
  "show_nat n = (if n < 10 then [digit_char n] else show_nat (n div 10) @ [digit_char (n mod 10)])"

declare show_nat.simps [simp del]

subsection \<open>Insertion-ordered maps\<close>

text \<open>
  A JavaScript \<^verbatim>\<open>Map\<close> iterates in insertion order, so it is an association list.
  \<^verbatim>\<open>set\<close> on a present key replaces the value where it stands, \<^verbatim>\<open>set\<close> on a new key
  appends, \<^verbatim>\<open>delete\<close> removes the key.
\<close>

definition Map_has :: "('k \<times> 'v) list \<Rightarrow> 'k \<Rightarrow> bool" where
  "Map_has m k = (k \<in> set (map fst m))"

definition Map_get :: "('k \<times> 'v) list \<Rightarrow> 'k \<Rightarrow> 'v option" where
  "Map_get m k = map_of m k"

fun Map_set :: "'k \<Rightarrow> 'v \<Rightarrow> ('k \<times> 'v) list \<Rightarrow> ('k \<times> 'v) list" where
  "Map_set k v [] = [(k, v)]"
| "Map_set k v (e # m) = (if fst e = k then (k, v) # m else e # Map_set k v m)"

definition Map_delete :: "'k \<Rightarrow> ('k \<times> 'v) list \<Rightarrow> ('k \<times> 'v) list" where
  "Map_delete k m = filter (\<lambda>e. fst e \<noteq> k) m"

section \<open>Workflow types (types.ts)\<close>

record N8nCredentialReference =
  cred_id :: string
  cred_name :: string

record N8nNode =
  node_id :: string
  node_name :: string
  node_type :: string
  typeVersion :: int
  position :: "int \<times> int"
  parameters :: "(string \<times> json) list"
  credentials :: "(string \<times> N8nCredentialReference) list option"

datatype N8nConnectionType = main | ai_tool | ai_languageModel | ai_memory

record N8nConnectionTarget =
  node :: string
  conn_type :: N8nConnectionType
  index :: int

text \<open>
  The serialized workflow. \<open>wf_connections\<close> holds, for each source name, the value of
  \<^verbatim>\<open>connections[source].main\<close>: the outer list is indexed by output slot. The keys of
  the JavaScript object are kept in the order in which they were assigned. (JavaScript
  enumerates a key that is the decimal form of an array index before the other keys, and
  an assignment to the key \<^verbatim>\<open>__proto__\<close> creates no own property; source names of these
  two forms are outside the model. No property below depends on the order of the keys.)
\<close>

record N8nWorkflow =
  wf_name :: string
  wf_nodes :: "N8nNode list"
  wf_connections :: "(string \<times> N8nConnectionTarget list list) list"
  executionOrder :: string

record AddNodeInput =
  type_in :: string
  typeVersion_in :: int
  name_in :: string
  parameters_in :: "(string \<times> json) list option"
  credentials_in :: "(string \<times> N8nCredentialReference) list option"

record ConnectNodesInput =
  sourceNode :: string
  targetNode :: string
  sourceOutput_in :: "rat option"
  targetInput_in :: "int option"
  connectionType_in :: "N8nConnectionType option"

section \<open>Workflow state manager (state.ts)\<close>

record InternalConnection =
  target :: string
  sourceOutput :: rat
  targetInput :: int
  connectionType :: N8nConnectionType

record WorkflowStateManager =
  nodes :: "(string \<times> N8nNode) list"
  connections :: "(string \<times> InternalConnection list) list"
  nodeCounter :: nat

definition new_WorkflowStateManager :: WorkflowStateManager where
  "new_WorkflowStateManager = \<lparr>nodes = [], connections = [], nodeCounter = 0\<rparr>"

text \<open>
  Every mutating method returns its result, or the exception it throws, together with
  the state it leaves behind.
\<close>

definition grid_position :: "nat \<Rightarrow> int \<times> int" where
  "grid_position nodeIndex =
     (100 + int (nodeIndex mod 4) * 250, 100 + int (nodeIndex div 4) * 150)"

definition addNode ::
  "AddNodeInput \<Rightarrow> WorkflowStateManager \<Rightarrow> (js_error + N8nNode) \<times> WorkflowStateManager" where
  \<open>addNode input s =
     (if Map_has (nodes s) (name_in input)
      then (Inl (Error (''Node with name "'' @ name_in input @ ''" already exists'')), s)
      else
        let counter = nodeCounter s + 1;
            nodeIndex = length (nodes s);
            n = \<lparr>node_id = ''node_'' @ show_nat counter,
                 node_name = name_in input,
                 node_type = type_in input,
                 typeVersion = typeVersion_in input,
                 position = grid_position nodeIndex,
                 parameters = (case parameters_in input of None \<Rightarrow> [] | Some p \<Rightarrow> p),
                 credentials = credentials_in input\<rparr>
        in (Inr n, s\<lparr>nodes := Map_set (name_in input) n (nodes s), nodeCounter := counter\<rparr>))\<close>

text \<open>The loop of \<^verbatim>\<open>removeNode\<close> over the connection map: every entry loses the edges
  into the removed node, and an entry left without edges is deleted.\<close>

fun prune_connections ::
  "string \<Rightarrow> (string \<times> InternalConnection list) list \<Rightarrow> (string \<times> InternalConnection list) list"
where
  "prune_connections nm [] = []"
| "prune_connections nm ((source, conns) # rest) =
     (let filtered = filter (\<lambda>c. target c \<noteq> nm) conns
      in if length filtered = 0 then prune_connections nm rest
         else (source, filtered) # prune_connections nm rest)"

definition removeNode :: "string \<Rightarrow> WorkflowStateManager \<Rightarrow> bool \<times> WorkflowStateManager" where
  "removeNode nm s =
     (if \<not> Map_has (nodes s) nm then (False, s)
      else (True, s\<lparr>nodes := Map_delete nm (nodes s),
                     connections := prune_connections nm (Map_delete nm (connections s))\<rparr>))"

text \<open>\<^verbatim>\<open>v || 0\<close> for an optional number.\<close>

definition or_zero :: "'a::zero option \<Rightarrow> 'a" where
  "or_zero v = (case v of None \<Rightarrow> 0 | Some n \<Rightarrow> n)"

definition connectNodes ::
  "ConnectNodesInput \<Rightarrow> WorkflowStateManager \<Rightarrow> (js_error + unit) \<times> WorkflowStateManager" where
  \<open>connectNodes input s =
     (if Map_get (nodes s) (sourceNode input) = None
      then (Inl (Error (''Source node "'' @ sourceNode input @ ''" not found'')), s)
      else if Map_get (nodes s) (targetNode input) = None
      then (Inl (Error (''Target node "'' @ targetNode input @ ''" not found'')), s)
      else
        let existing = (case Map_get (connections s) (sourceNode input) of
                          None \<Rightarrow> [] | Some cs \<Rightarrow> cs);
            duplicate = find (\<lambda>c. target c = targetNode input
                                  \<and> sourceOutput c = or_zero (sourceOutput_in input)
                                  \<and> targetInput c = or_zero (targetInput_in input)) existing
        in if duplicate \<noteq> None
           then (Inl (Error (''Connection from "'' @ sourceNode input @ ''" to "''
                              @ targetNode input @ ''" already exists'')), s)
           else
             let c = \<lparr>target = targetNode input,
                      sourceOutput = or_zero (sourceOutput_in input),
                      targetInput = or_zero (targetInput_in input),
                      connectionType = (case connectionType_in input of
                                          None \<Rightarrow> main | Some t \<Rightarrow> t)\<rparr>
             in (Inr (), s\<lparr>connections :=
                              Map_set (sourceNode input) (existing @ [c]) (connections s)\<rparr>))\<close>

text \<open>The object spread \<^verbatim>\<open>{...a, ...b}\<close>: the keys of \<open>a\<close> keep their place, a key of
  \<open>b\<close> overwrites or is appended.\<close>

definition spread :: "(string \<times> json) list \<Rightarrow> (string \<times> json) list \<Rightarrow> (string \<times> json) list" where
  "spread a b = fold (\<lambda>e acc. Map_set (fst e) (snd e) acc) b a"

definition updateNodeParameters ::
  "string \<Rightarrow> (string \<times> json) list \<Rightarrow> WorkflowStateManager
     \<Rightarrow> (js_error + unit) \<times> WorkflowStateManager" where
  \<open>updateNodeParameters nm ps s =
     (case Map_get (nodes s) nm of
        None \<Rightarrow> (Inl (Error (''Node "'' @ nm @ ''" not found'')), s)
      | Some n \<Rightarrow>
          (Inr (), s\<lparr>nodes := Map_set nm (n\<lparr>parameters := spread (parameters n) ps\<rparr>) (nodes s)\<rparr>))\<close>

definition getNode :: "string \<Rightarrow> WorkflowStateManager \<Rightarrow> N8nNode option" where
  "getNode nm s = Map_get (nodes s) nm"

definition getNodes :: "WorkflowStateManager \<Rightarrow> N8nNode list" where
  "getNodes s = map snd (nodes s)"

definition reset :: "WorkflowStateManager \<Rightarrow> WorkflowStateManager" where
  "reset s = s\<lparr>nodes := [], connections := [], nodeCounter := 0\<rparr>"

subsection \<open>Serialization\<close>


text \<open>\<^verbatim>\<open>outputGroups.get(i) || []\<close>.\<close>

definition group_of ::
  "(rat \<times> InternalConnection list) list \<Rightarrow> rat \<Rightarrow> InternalConnection list" where
  "group_of g i = (case Map_get g i of None \<Rightarrow> [] | Some x \<Rightarrow> x)"

text \<open>The grouping loop of \<^verbatim>\<open>toN8nWorkflow\<close>: \<open>outputGroups\<close> maps a source output to
  the edges that leave it, in insertion order.\<close>

fun group_by_output ::
  "InternalConnection list \<Rightarrow> (rat \<times> InternalConnection list) list
     \<Rightarrow> (rat \<times> InternalConnection list) list" where
  "group_by_output [] outputGroups = outputGroups"
| "group_by_output (conn # conns) outputGroups =
     (let grp = group_of outputGroups (sourceOutput conn)
      in group_by_output conns (Map_set (sourceOutput conn) (grp @ [conn]) outputGroups))"

definition to_target :: "InternalConnection \<Rightarrow> N8nConnectionTarget" where
  "to_target c = \<lparr>node = target c, conn_type = connectionType c, index = targetInput c\<rparr>"

text \<open>
  \<^verbatim>\<open>Math.max(...keys)\<close> of no keys is \<^verbatim>\<open>-Infinity\<close>, and the slot loop
  \<^verbatim>\<open>for (i = 0; i <= maxOutput; i++)\<close> then does not run: the array stays empty.
  Otherwise the counter takes the integers from 0 up to the integer part of
  \<open>maxOutput\<close> (none when \<open>maxOutput\<close> is negative), and \<^verbatim>\<open>outputGroups.get(i)\<close>
  finds a group only under a key equal to that integer.
\<close>

definition mainConnections :: "InternalConnection list \<Rightarrow> N8nConnectionTarget list list" where
  "mainConnections conns =
     (let outputGroups = group_by_output conns [];
          ks = map fst outputGroups
      in if ks = [] then []
         else
           let maxOutput = fold max (tl ks) (hd ks)
           in map (\<lambda>i. map to_target (group_of outputGroups (of_int i))) [0..\<lfloor>maxOutput\<rfloor>])"

definition toN8nWorkflow :: "string \<Rightarrow> WorkflowStateManager \<Rightarrow> N8nWorkflow" where
  "toN8nWorkflow nm s =
     \<lparr>wf_name = nm,
      wf_nodes = map snd (nodes s),
      wf_connections = map (\<lambda>(source, conns). (source, mainConnections conns)) (connections s),
      executionOrder = ''v1''\<rparr>"

subsection \<open>Sequences of calls\<close>

text \<open>
  A caller of the manager: it issues one call after the other, catches what a call
  throws and goes on. \<open>run_calls\<close> returns the nodes that the successful \<^verbatim>\<open>addNode\<close>
  calls returned, in call order, and the final state.
\<close>

datatype manager_call =
    AddNode AddNodeInput
  | RemoveNode string
  | ConnectNodes ConnectNodesInput
  | UpdateNodeParameters string "(string \<times> json) list"

fun call :: "manager_call \<Rightarrow> WorkflowStateManager \<Rightarrow> N8nNode list \<times> WorkflowStateManager" where
  "call (AddNode input) s =
     (case addNode input s of (Inl e, s') \<Rightarrow> ([], s') | (Inr n, s') \<Rightarrow> ([n], s'))"
| "call (RemoveNode nm) s = ([], snd (removeNode nm s))"
| "call (ConnectNodes input) s = ([], snd (connectNodes input s))"
| "call (UpdateNodeParameters nm ps) s = ([], snd (updateNodeParameters nm ps s))"

fun run_calls ::
  "manager_call list \<Rightarrow> WorkflowStateManager \<Rightarrow> N8nNode list \<times> WorkflowStateManager" where
  "run_calls [] s = ([], s)"
| "run_calls (c # cs) s =
     (let (added, s') = call c s; (added', s'') = run_calls cs s' in (added @ added', s''))"

fun is_RemoveNode :: "manager_call \<Rightarrow> bool" where
  "is_RemoveNode (RemoveNode nm) = True"
| "is_RemoveNode c = False"

subsection \<open>Example inputs and states\<close>

definition add_input :: "string \<Rightarrow> string \<Rightarrow> AddNodeInput" where
  "add_input nm ty =
     \<lparr>type_in = ty, typeVersion_in = 1, name_in = nm, parameters_in = None,
      credentials_in = None\<rparr>"

definition connect_input :: "string \<Rightarrow> string \<Rightarrow> rat \<Rightarrow> ConnectNodesInput" where
  "connect_input src tgt out =
     \<lparr>sourceNode = src, targetNode = tgt, sourceOutput_in = Some out, targetInput_in = None,
      connectionType_in = None\<rparr>"

text \<open>Two nodes added, the first removed, a third added.\<close>

definition layout_calls :: "manager_call list" where
  "layout_calls =
     [AddNode (add_input ''A'' ''n8n-nodes-base.set''),
      AddNode (add_input ''B'' ''n8n-nodes-base.set''),
      RemoveNode ''A'',
      AddNode (add_input ''C'' ''n8n-nodes-base.set'')]"

text \<open>One node named A.\<close>

definition single_state :: WorkflowStateManager where
  "single_state =
     snd (run_calls [AddNode (add_input ''A'' ''n8n-nodes-base.set'')] new_WorkflowStateManager)"

text \<open>The graph with the edges (A, B, output 0) and (A, C, output 1).\<close>

definition branch_state :: WorkflowStateManager where
  "branch_state =
     snd (run_calls
       [AddNode (add_input ''A'' ''n8n-nodes-base.if''),
        AddNode (add_input ''B'' ''n8n-nodes-base.set''),
        AddNode (add_input ''C'' ''n8n-nodes-base.set''),
        ConnectNodes (connect_input ''A'' ''B'' 0),
        ConnectNodes (connect_input ''A'' ''C'' 1)] new_WorkflowStateManager)"

text \<open>The same graph with a third edge (C, B, output 0).\<close>

definition cascade_state :: WorkflowStateManager where
  "cascade_state = snd (call (ConnectNodes (connect_input ''C'' ''B'' 0)) branch_state)"



text \<open>Calls without a removal: a duplicate name and a connection between the additions.\<close>

definition grid_calls :: "manager_call list" where
  "grid_calls =
     [AddNode (add_input ''A'' ''n8n-nodes-base.if''),
      AddNode (add_input ''B'' ''n8n-nodes-base.set''),
      AddNode (add_input ''A'' ''n8n-nodes-base.set''),
      ConnectNodes (connect_input ''A'' ''B'' 0),
      AddNode (add_input ''C'' ''n8n-nodes-base.set'')]"

section \<open>Validator (validator.ts)\<close>

text \<open>
  The schemas are written with the zod library (version 3). \<^verbatim>\<open>safeParse\<close> collects an
  issue for every check that fails, in the order of the schema's keys and of the array
  elements, and succeeds exactly when there is no issue. The model receives a value of the
  TypeScript type \<^verbatim>\<open>N8nWorkflow\<close>, so only the checks that such a value can fail are
  written out: string lengths, the node type prefix, the sign of \<^verbatim>\<open>typeVersion\<close> and
  of a target index, the number of nodes and the \<^verbatim>\<open>executionOrder\<close> literal. Messages
  without a custom text are the library's default ones.
\<close>

record ZodIssue =
  path :: "string list"
  message :: string

text \<open>\<^verbatim>\<open>z.string().min(1, msg)\<close> at path \<open>p\<close>.\<close>

definition string_min1 :: "string list \<Rightarrow> string \<Rightarrow> string \<Rightarrow> ZodIssue list" where
  "string_min1 p msg v = (if length v < 1 then [\<lparr>path = p, message = msg\<rparr>] else [])"

text \<open>The regular expression \<^verbatim>\<open>/^(n8n-nodes-base\.|@n8n\/n8n-nodes-langchain\.)/\<close>.\<close>

definition node_type_regex :: "string \<Rightarrow> bool" where
  "node_type_regex v =
     (startsWith v ''n8n-nodes-base.'' \<or> startsWith v ''@n8n/n8n-nodes-langchain.'')"

text \<open>The message of the regular expression check; it ends with a single quote.\<close>

definition node_type_message :: string where
  "node_type_message =
     ''Node type must start with 'n8n-nodes-base.' or '@n8n/n8n-nodes-langchain.'' @ [CHR 0x27]"

definition n8nNodeSchema :: "string list \<Rightarrow> N8nNode \<Rightarrow> ZodIssue list" where
  "n8nNodeSchema p n =
     string_min1 (p @ [''id'']) ''Node ID is required'' (node_id n)
   @ string_min1 (p @ [''name'']) ''Node name is required'' (node_name n)
   @ string_min1 (p @ [''type'']) ''String must contain at least 1 character(s)'' (node_type n)
   @ (if \<not> node_type_regex (node_type n)
      then [\<lparr>path = p @ [''type''], message = node_type_message\<rparr>]
      else [])
   @ (if typeVersion n \<le> 0
      then [\<lparr>path = p @ [''typeVersion''], message = ''typeVersion must be a positive integer''\<rparr>]
      else [])"

definition n8nConnectionTargetSchema :: "string list \<Rightarrow> N8nConnectionTarget \<Rightarrow> ZodIssue list" where
  "n8nConnectionTargetSchema p t =
     string_min1 (p @ [''node'']) ''Target node name is required'' (node t)
   @ (if index t < 0
      then [\<lparr>path = p @ [''index''], message = ''Number must be greater than or equal to 0''\<rparr>]
      else [])"

text \<open>The issues of the elements of an array; the element index extends the path.\<close>

definition array_issues :: "string list \<Rightarrow> (string list \<Rightarrow> 'a \<Rightarrow> ZodIssue list) \<Rightarrow> 'a list \<Rightarrow> ZodIssue list" where
  "array_issues p schema xs =
     concat (map (\<lambda>(i, x). schema (p @ [show_nat i]) x) (enumerate 0 xs))"

definition n8nConnectionsSchema ::
  "string list \<Rightarrow> (string \<times> N8nConnectionTarget list list) list \<Rightarrow> ZodIssue list" where
  "n8nConnectionsSchema p conns =
     concat (map (\<lambda>(source, slots).
        array_issues (p @ [source, ''main''])
          (\<lambda>q slot. array_issues q n8nConnectionTargetSchema slot) slots) conns)"

definition n8nWorkflowSchema :: "N8nWorkflow \<Rightarrow> ZodIssue list" where
  \<open>n8nWorkflowSchema w =
     string_min1 [''name''] ''Workflow name is required'' (wf_name w)
   @ (if length (wf_nodes w) < 1
      then [\<lparr>path = [''nodes''], message = ''Workflow must have at least one node''\<rparr>]
      else [])
   @ array_issues [''nodes''] n8nNodeSchema (wf_nodes w)
   @ n8nConnectionsSchema [''connections''] (wf_connections w)
   @ (if executionOrder w \<noteq> ''v1''
      then [\<lparr>path = [''settings'', ''executionOrder''],
             message = ''Invalid literal value, expected "v1"''\<rparr>]
      else [])\<close>

record ValidationResult =
  valid :: bool
  errors :: "string list"
  warnings :: "string list"

text \<open>The loop over the nodes with the set \<open>seen\<close>.\<close>

fun duplicate_name_errors :: "N8nNode list \<Rightarrow> string list \<Rightarrow> string list" where
  \<open>duplicate_name_errors [] seen = []\<close>
| \<open>duplicate_name_errors (n # ns) seen =
     (if node_name n \<in> set seen then [''Duplicate node name: "'' @ node_name n @ ''"''] else [])
     @ duplicate_name_errors ns (node_name n # seen)\<close>

definition connection_errors ::
  "string list \<Rightarrow> (string \<times> N8nConnectionTarget list list) list \<Rightarrow> string list" where
  \<open>connection_errors nodeNames conns =
     concat (map (\<lambda>(sourceName, slots).
        (if sourceName \<notin> set nodeNames
         then [''Connection source "'' @ sourceName @ ''" does not exist as a node'']
         else [])
        @ concat (map (\<lambda>outputConnections.
            concat (map (\<lambda>conn.
              if node conn \<notin> set nodeNames
              then [''Connection target "'' @ node conn @ ''" (from "'' @ sourceName
                      @ ''") does not exist as a node'']
              else []) outputConnections)) slots)) conns)\<close>

definition isTriggerNode :: "string \<Rightarrow> bool" where
  "isTriggerNode ty =
     (let lowerType = toLowerCase ty
      in str_includes lowerType ''trigger'' \<or> str_includes lowerType ''webhook''
         \<or> endsWith lowerType ''.cron'')"

definition no_trigger_warning :: string where
  "no_trigger_warning = ''Workflow has no trigger node. It can only be executed manually via API.''"

definition orphan_warnings ::
  "N8nNode list \<Rightarrow> (string \<times> N8nConnectionTarget list list) list \<Rightarrow> string list" where
  \<open>orphan_warnings ns conns =
     (let connectedNodes = map node (concat (concat (map snd conns)))
      in concat (map (\<lambda>n.
           if \<not> isTriggerNode (node_type n) \<and> node_name n \<notin> set connectedNodes \<and> length ns > 1
           then [''Node "'' @ node_name n @ ''" has no incoming connections'']
           else []) ns))\<close>

text \<open>\<^verbatim>\<open>`${issue.path.join('.')}: ${issue.message}`\<close>\<close>

definition format_issue :: "ZodIssue \<Rightarrow> string" where
  "format_issue i = join ''.'' (path i) @ '': '' @ message i"

definition validateWorkflow :: "N8nWorkflow \<Rightarrow> ValidationResult" where
  "validateWorkflow workflow =
     (let issues = n8nWorkflowSchema workflow
      in if issues \<noteq> []
         then \<lparr>valid = False, errors = map format_issue issues, warnings = []\<rparr>
         else
           let nodeNames = map node_name (wf_nodes workflow);
               nodeIds = map node_id (wf_nodes workflow);
               errs = (if length (remdups nodeNames) \<noteq> length (wf_nodes workflow)
                       then duplicate_name_errors (wf_nodes workflow) [] else [])
                    @ (if length (remdups nodeIds) \<noteq> length (wf_nodes workflow)
                       then [''Duplicate node IDs detected''] else [])
                    @ connection_errors nodeNames (wf_connections workflow);
               hasTrigger = list_ex (\<lambda>n. isTriggerNode (node_type n)) (wf_nodes workflow);
               warns = (if \<not> hasTrigger then [no_trigger_warning] else [])
                     @ orphan_warnings (wf_nodes workflow) (wf_connections workflow)
           in \<lparr>valid = (length errs = 0), errors = errs, warnings = warns\<rparr>)"

section \<open>Tool surface (tools/index.ts) and API client (tools/n8n-api.ts)\<close>

subsection \<open>The API client\<close>

record CreateWorkflowResponse =
  response_id :: string
  response_name :: string
  active :: bool
  createdAt :: string
  updatedAt :: string

text \<open>
  The client talks to a remote service. Its two requests are the parameters of the
  model: each returns the response or what the method throws.
\<close>

record N8nApiClient =
  createWorkflow :: "N8nWorkflow \<Rightarrow> js_error + CreateWorkflowResponse"
  deleteWorkflow :: "string \<Rightarrow> js_error + unit"

text \<open>The result of \<^verbatim>\<open>validateByCreation\<close>: \<^verbatim>\<open>{valid: true}\<close> or
  \<^verbatim>\<open>{valid: false, error}\<close>.\<close>

datatype n8n_validation = ValidByCreation | InvalidByCreation N8nApiError

text \<open>
  An \<^verbatim>\<open>Error\<close> instance carries no \<^verbatim>\<open>statusCode\<close> property, so the first branch of the
  handler is never taken; a failed deletion is logged and ignored.
\<close>

definition validateByCreation :: "N8nApiClient \<Rightarrow> N8nWorkflow \<Rightarrow> n8n_validation" where
  "validateByCreation client workflow =
     (case createWorkflow client workflow of
        Inr created \<Rightarrow>
          (case deleteWorkflow client (response_id created) of
             Inl deleteError \<Rightarrow> ValidByCreation
           | Inr u \<Rightarrow> ValidByCreation)
      | Inl error \<Rightarrow>
          InvalidByCreation
            \<lparr>statusCode = 0,
             api_message = (if instanceof_Error error then error_message error
                            else ''Unknown error''),
             errorType = NETWORK,
             api_recoverable = True,
             details = None\<rparr>)"

subsection \<open>Tool results and tool schemas\<close>

datatype tool_data =
    NodeData N8nNode
  | WorkflowData N8nWorkflow
  | ValidatedAt
  | ValidationFailure N8nApiErrorType bool "json option"
  | CreatedWorkflow string string string bool

record ToolResult =
  success :: bool
  tool_message :: string
  data :: "tool_data option"

datatype tool_name =
    add_node | connect_nodes | get_current_workflow | update_node_parameters
  | validate_workflow_with_n8n | create_workflow_in_n8n

text \<open>
  \<^verbatim>\<open>toolSchemas[toolName]\<close> is a property read on an object literal. It finds the six
  own properties; for a name that \<^verbatim>\<open>Object.prototype\<close> defines it finds the inherited
  member (a function, or the prototype object itself for \<^verbatim>\<open>__proto__\<close>), which is truthy
  and has no \<^verbatim>\<open>safeParse\<close>; for any other name it is \<^verbatim>\<open>undefined\<close>.
\<close>

datatype property_lookup = Undefined | OwnSchema tool_name | Inherited

definition Object_prototype_keys :: "string list" where
  "Object_prototype_keys =
     [''constructor'', ''hasOwnProperty'', ''isPrototypeOf'', ''propertyIsEnumerable'',
      ''toLocaleString'', ''toString'', ''valueOf'', ''__defineGetter__'',
      ''__defineSetter__'', ''__lookupGetter__'', ''__lookupSetter__'', ''__proto__'']"

definition toolSchemas :: "string \<Rightarrow> property_lookup" where
  "toolSchemas toolName =
     (if toolName = ''add_node'' then OwnSchema add_node
      else if toolName = ''connect_nodes'' then OwnSchema connect_nodes
      else if toolName = ''get_current_workflow'' then OwnSchema get_current_workflow
      else if toolName = ''update_node_parameters'' then OwnSchema update_node_parameters
      else if toolName = ''validate_workflow_with_n8n'' then OwnSchema validate_workflow_with_n8n
      else if toolName = ''create_workflow_in_n8n'' then OwnSchema create_workflow_in_n8n
      else if toolName \<in> set Object_prototype_keys then Inherited
      else Undefined)"

definition asyncTools :: "tool_name \<Rightarrow> bool" where
  "asyncTools t = (t = validate_workflow_with_n8n \<or> t = create_workflow_in_n8n)"

text \<open>The name zod gives to the type of a value in its default messages.\<close>

fun parsedType :: "json \<Rightarrow> string" where
  "parsedType JNull = ''null''"
| "parsedType (JBool b) = ''boolean''"
| "parsedType (JNum n) = ''number''"
| "parsedType (JStr s) = ''string''"
| "parsedType (JArr xs) = ''array''"
| "parsedType (JObj kvs) = ''object''"

text \<open>The checks of one key of an argument object: \<^verbatim>\<open>z.string()\<close>, \<^verbatim>\<open>z.number()\<close>,
  \<^verbatim>\<open>z.number().default(0)\<close>, \<^verbatim>\<open>z.record(z.unknown())\<close> and its \<^verbatim>\<open>optional()\<close> form.\<close>

definition invalid_type :: "string \<Rightarrow> string \<Rightarrow> json option \<Rightarrow> ZodIssue list" where
  "invalid_type k expected v =
     (case v of
        None \<Rightarrow> [\<lparr>path = [k], message = ''Required''\<rparr>]
      | Some x \<Rightarrow>
          [\<lparr>path = [k], message = ''Expected '' @ expected @ '', received '' @ parsedType x\<rparr>])"

definition z_string :: "(string \<times> json) list \<Rightarrow> string \<Rightarrow> ZodIssue list + string" where
  "z_string args k =
     (case Map_get args k of
        Some (JStr v) \<Rightarrow> Inr v
      | v \<Rightarrow> Inl (invalid_type k ''string'' v))"

definition z_number :: "(string \<times> json) list \<Rightarrow> string \<Rightarrow> ZodIssue list + int" where
  "z_number args k =
     (case Map_get args k of
        Some (JNum v) \<Rightarrow> Inr v
      | v \<Rightarrow> Inl (invalid_type k ''number'' v))"

definition z_number_default0 :: "(string \<times> json) list \<Rightarrow> string \<Rightarrow> ZodIssue list + int" where
  "z_number_default0 args k =
     (case Map_get args k of
        None \<Rightarrow> Inr 0
      | Some (JNum v) \<Rightarrow> Inr v
      | v \<Rightarrow> Inl (invalid_type k ''number'' v))"

definition z_record ::
  "(string \<times> json) list \<Rightarrow> string \<Rightarrow> ZodIssue list + (string \<times> json) list" where
  "z_record args k =
     (case Map_get args k of
        Some (JObj v) \<Rightarrow> Inr v
      | v \<Rightarrow> Inl (invalid_type k ''object'' v))"

definition z_record_optional ::
  "(string \<times> json) list \<Rightarrow> string \<Rightarrow> ZodIssue list + (string \<times> json) list option" where
  "z_record_optional args k =
     (case Map_get args k of
        None \<Rightarrow> Inr None
      | Some (JObj v) \<Rightarrow> Inr (Some v)
      | v \<Rightarrow> Inl (invalid_type k ''object'' v))"

definition issues_of :: "ZodIssue list + 'a \<Rightarrow> ZodIssue list" where
  "issues_of r = (case r of Inl is \<Rightarrow> is | Inr v \<Rightarrow> [])"

datatype tool_args =
    AddNodeArgs string int string "(string \<times> json) list option"
  | ConnectNodesArgs string string int int
  | GetCurrentWorkflowArgs string
  | UpdateNodeParametersArgs string "(string \<times> json) list"
  | ValidateWorkflowArgs string
  | CreateWorkflowArgs string

text \<open>\<^verbatim>\<open>schema.safeParse(args)\<close> for each of the six schemas: the issues of all keys, or
  the parsed arguments when there is none.\<close>

fun safeParse :: "tool_name \<Rightarrow> (string \<times> json) list \<Rightarrow> ZodIssue list + tool_args" where
  "safeParse add_node args =
     (case (z_string args ''type'', z_number args ''typeVersion'', z_string args ''name'',
            z_record_optional args ''parameters'') of
        (Inr ty, Inr tv, Inr nm, Inr ps) \<Rightarrow> Inr (AddNodeArgs ty tv nm ps)
      | (a, b, c, d) \<Rightarrow> Inl (issues_of a @ issues_of b @ issues_of c @ issues_of d))"
| "safeParse connect_nodes args =
     (case (z_string args ''sourceNode'', z_string args ''targetNode'',
            z_number_default0 args ''sourceOutput'', z_number_default0 args ''targetInput'') of
        (Inr src, Inr tgt, Inr out, Inr inp) \<Rightarrow> Inr (ConnectNodesArgs src tgt out inp)
      | (a, b, c, d) \<Rightarrow> Inl (issues_of a @ issues_of b @ issues_of c @ issues_of d))"
| "safeParse get_current_workflow args =
     (case z_string args ''name'' of
        Inr nm \<Rightarrow> Inr (GetCurrentWorkflowArgs nm)
      | Inl is \<Rightarrow> Inl is)"
| "safeParse update_node_parameters args =
     (case (z_string args ''nodeName'', z_record args ''parameters'') of
        (Inr nm, Inr ps) \<Rightarrow> Inr (UpdateNodeParametersArgs nm ps)
      | (a, b) \<Rightarrow> Inl (issues_of a @ issues_of b))"
| "safeParse validate_workflow_with_n8n args =
     (case z_string args ''workflowName'' of
        Inr nm \<Rightarrow> Inr (ValidateWorkflowArgs nm)
      | Inl is \<Rightarrow> Inl is)"
| "safeParse create_workflow_in_n8n args =
     (case z_string args ''workflowName'' of
        Inr nm \<Rightarrow> Inr (CreateWorkflowArgs nm)
      | Inl is \<Rightarrow> Inl is)"

text \<open>
  \<^verbatim>\<open>parsed.error.message\<close>. The library renders the issue list as JSON text; the model
  keeps one line per issue instead.
\<close>

definition zod_error_message :: "ZodIssue list \<Rightarrow> string" where
  "zod_error_message is = join [CHR 0x0A] (map format_issue is)"

subsection \<open>Tool implementations\<close>

text \<open>
  The module variables \<^verbatim>\<open>workflowState\<close> and \<^verbatim>\<open>n8nClient\<close> and the configured
  \<^verbatim>\<open>env.N8N_BASE_URL\<close> are passed in; the state is returned.
\<close>

fun toolImplementations ::
  "string \<Rightarrow> N8nApiClient option \<Rightarrow> tool_args \<Rightarrow> WorkflowStateManager
     \<Rightarrow> ToolResult \<times> WorkflowStateManager" where
  \<open>toolImplementations baseUrl n8nClient (AddNodeArgs ty tv nm ps) s =
     (case addNode \<lparr>type_in = ty, typeVersion_in = tv, name_in = nm, parameters_in = ps,
                     credentials_in = None\<rparr> s of
        (Inr n, s') \<Rightarrow>
          (\<lparr>success = True,
            tool_message = ''Added node "'' @ nm @ ''" ('' @ ty @ '') with ID: '' @ node_id n,
            data = Some (NodeData n)\<rparr>, s')
      | (Inl error, s') \<Rightarrow>
          (\<lparr>success = False,
            tool_message = ''Error adding node: '' @ error_message error,
            data = None\<rparr>, s'))\<close>
| \<open>toolImplementations baseUrl n8nClient (ConnectNodesArgs src tgt out inp) s =
     (case connectNodes \<lparr>sourceNode = src, targetNode = tgt,
                          sourceOutput_in = Some (of_int out),
                          targetInput_in = Some inp, connectionType_in = None\<rparr> s of
        (Inr u, s') \<Rightarrow>
          (\<lparr>success = True,
            tool_message = ''Connected "'' @ src @ ''" -> "'' @ tgt @ ''"'',
            data = None\<rparr>, s')
      | (Inl error, s') \<Rightarrow>
          (\<lparr>success = False,
            tool_message = ''Error connecting nodes: '' @ error_message error,
            data = None\<rparr>, s'))\<close>
| \<open>toolImplementations baseUrl n8nClient (GetCurrentWorkflowArgs nm) s =
     (\<lparr>success = True, tool_message = ''Current workflow state:'',
       data = Some (WorkflowData (toN8nWorkflow nm s))\<rparr>, s)\<close>
| \<open>toolImplementations baseUrl n8nClient (UpdateNodeParametersArgs nm ps) s =
     (case updateNodeParameters nm ps s of
        (Inr u, s') \<Rightarrow>
          (\<lparr>success = True,
            tool_message = ''Updated parameters for node "'' @ nm @ ''"'',
            data = None\<rparr>, s')
      | (Inl error, s') \<Rightarrow>
          (\<lparr>success = False,
            tool_message = ''Error updating parameters: '' @ error_message error,
            data = None\<rparr>, s'))\<close>
| \<open>toolImplementations baseUrl n8nClient (ValidateWorkflowArgs nm) s =
     (case n8nClient of
        None \<Rightarrow>
          (\<lparr>success = False,
            tool_message = ''n8n API is not configured. Set N8N_API_KEY environment variable to enable n8n validation.'',
            data = None\<rparr>, s)
      | Some client \<Rightarrow>
          (case validateByCreation client (toN8nWorkflow nm s) of
             ValidByCreation \<Rightarrow>
               (\<lparr>success = True,
                 tool_message = ''Workflow validated successfully against n8n API.'',
                 data = Some ValidatedAt\<rparr>, s)
           | InvalidByCreation e \<Rightarrow>
               (\<lparr>success = False,
                 tool_message = ''n8n validation failed: ''
                   @ (if api_message e = [] then ''Unknown error'' else api_message e),
                 data = Some (ValidationFailure (errorType e) (api_recoverable e) (details e))\<rparr>,
                s)))\<close>
| \<open>toolImplementations baseUrl n8nClient (CreateWorkflowArgs nm) s =
     (case n8nClient of
        None \<Rightarrow>
          (\<lparr>success = False,
            tool_message = ''n8n API is not configured. Set N8N_API_KEY environment variable to enable n8n integration.'',
            data = None\<rparr>, s)
      | Some client \<Rightarrow>
          (case createWorkflow client (toN8nWorkflow nm s) of
             Inr response \<Rightarrow>
               (\<lparr>success = True,
                 tool_message = ''Workflow created successfully in n8n.'',
                 data = Some (CreatedWorkflow (response_id response) (response_name response)
                                (baseUrl @ ''/workflow/'' @ response_id response)
                                (active response))\<rparr>, s)
           | Inl error \<Rightarrow>
               (\<lparr>success = False,
                 tool_message = ''Error creating workflow in n8n: ''
                   @ (if instanceof_Error error then error_message error else ''Unknown error''),
                 data = None\<rparr>, s)))\<close>

subsection \<open>Tool dispatch\<close>

text \<open>
  Calling \<^verbatim>\<open>schema.safeParse\<close> on an inherited member calls \<^verbatim>\<open>undefined\<close>: the runtime
  throws a \<^verbatim>\<open>TypeError\<close>. In the async variant the throw rejects the returned promise.
\<close>

definition executeTool ::
  "string \<Rightarrow> N8nApiClient option \<Rightarrow> string \<Rightarrow> (string \<times> json) list
     \<Rightarrow> WorkflowStateManager \<Rightarrow> (js_error + ToolResult) \<times> WorkflowStateManager" where
  "executeTool baseUrl n8nClient toolName args s =
     (case toolSchemas toolName of
        Undefined \<Rightarrow>
          (Inr \<lparr>success = False, tool_message = ''Unknown tool: '' @ toolName, data = None\<rparr>, s)
      | Inherited \<Rightarrow> (Inl (TypeError ''schema.safeParse is not a function''), s)
      | OwnSchema t \<Rightarrow>
          if asyncTools t
          then (Inr \<lparr>success = False,
                     tool_message = ''Tool '' @ toolName @ '' is async. Use executeToolAsync instead.'',
                     data = None\<rparr>, s)
          else
            (case safeParse t args of
               Inl is \<Rightarrow>
                 (Inr \<lparr>success = False,
                       tool_message = ''Invalid arguments: '' @ zod_error_message is,
                       data = None\<rparr>, s)
             | Inr parsed \<Rightarrow>
                 (let (result, s') = toolImplementations baseUrl n8nClient parsed s
                  in (Inr result, s'))))"

definition executeToolAsync ::
  "string \<Rightarrow> N8nApiClient option \<Rightarrow> string \<Rightarrow> (string \<times> json) list
     \<Rightarrow> WorkflowStateManager \<Rightarrow> (js_error + ToolResult) \<times> WorkflowStateManager" where
  "executeToolAsync baseUrl n8nClient toolName args s =
     (case toolSchemas toolName of
        Undefined \<Rightarrow>
          (Inr \<lparr>success = False, tool_message = ''Unknown tool: '' @ toolName, data = None\<rparr>, s)
      | Inherited \<Rightarrow> (Inl (TypeError ''schema.safeParse is not a function''), s)
      | OwnSchema t \<Rightarrow>
          (case safeParse t args of
             Inl is \<Rightarrow>
               (Inr \<lparr>success = False,
                     tool_message = ''Invalid arguments: '' @ zod_error_message is,
                     data = None\<rparr>, s)
           | Inr parsed \<Rightarrow>
               (let (result, s') = toolImplementations baseUrl n8nClient parsed s
                in (Inr result, s'))))"


section \<open>Generation loop (workflow-builder.ts)\<close>

subsection \<open>Error classification\<close>

record ErrorAnalysis =
  recoverable :: bool
  suggestedAction :: "string option"

definition analyzeValidationError :: "string \<Rightarrow> ErrorAnalysis" where
  "analyzeValidationError errorMessage =
     (let lowerMessage = toLowerCase errorMessage
      in if str_includes lowerMessage ''credential'' \<or> str_includes lowerMessage ''oauth''
            \<or> str_includes lowerMessage ''api key'' \<or> str_includes lowerMessage ''authentication''
         then \<lparr>recoverable = False,
                suggestedAction = Some ''Credentials need to be configured in n8n. Please set up the required credentials in your n8n instance.''\<rparr>
         else if str_includes lowerMessage ''required'' \<or> str_includes lowerMessage ''missing''
            \<or> str_includes lowerMessage ''parameter''
         then \<lparr>recoverable = True,
                suggestedAction = Some ''Add the missing required parameter using update_node_parameters.''\<rparr>
         else if str_includes lowerMessage ''invalid'' \<or> str_includes lowerMessage ''unknown node''
         then \<lparr>recoverable = True,
                suggestedAction = Some ''Check the node type or parameter value. Use list_available_nodes to see valid options.''\<rparr>
         else if str_includes lowerMessage ''connection'' \<or> str_includes lowerMessage ''not found''
         then \<lparr>recoverable = True,
                suggestedAction = Some ''Check node names and ensure they exist before connecting.''\<rparr>
         else \<lparr>recoverable = True,
                suggestedAction = Some ''Review the error message and fix the issue.''\<rparr>)"

subsection \<open>The build loop\<close>

text \<open>
  The language model is a parameter: a function from the message history to the response
  of \<^verbatim>\<open>client.messages.create\<close>, or to what that call throws. A response is a list of
  text and tool-use blocks and a stop reason. The content of a tool result is the data of
  the result when it has some, its message otherwise; the model keeps the value where the
  program sends its JSON text, and likewise for the entries of the conversation log.
  Progress events are output only and are left out, as is the model id of the result.
\<close>

datatype content_block =
    TextBlock string
  | ToolUseBlock string string "(string \<times> json) list"

record llm_response =
  content :: "content_block list"
  stop_reason :: string

datatype tool_result_content = ResultData tool_data | ResultText string

datatype message_param =
    UserText string
  | AssistantContent "content_block list"
  | UserToolResults "(string \<times> tool_result_content) list"

datatype log_entry =
    AssistantLog string
  | ToolLog string "(string \<times> json) list"
  | ResultLog ToolResult

record Env =
  N8N_BASE_URL :: string
  MAX_VALIDATION_RETRIES :: nat

text \<open>The defaults of \<^verbatim>\<open>envSchema\<close> (config/env.ts).\<close>

definition default_env :: Env where
  "default_env = \<lparr>N8N_BASE_URL = ''http://localhost:5678'', MAX_VALIDATION_RETRIES = 3\<rparr>"

definition MAX_TURNS :: nat where
  "MAX_TURNS = 20"

record BuildResult =
  build_success :: bool
  workflow :: "N8nWorkflow option"
  build_error :: "string option"
  validationWarnings :: "string list option"
  conversationLog :: "log_entry list"
  validationAttempts :: "nat option"
  requiresHumanInput :: "bool option"
  humanInputReason :: "string option"

definition buildRetryPrompt :: "string \<Rightarrow> ErrorAnalysis \<Rightarrow> string" where
  "buildRetryPrompt errorMessage analysis =
     [CHR 0x0A] @ ''The workflow validation failed with the following error:'' @ [CHR 0x0A]
     @ errorMessage @ [CHR 0x0A, CHR 0x0A]
     @ (case suggestedAction analysis of
          None \<Rightarrow> []
        | Some a \<Rightarrow> if a = [] then [] else ''Suggested action: '' @ a)
     @ [CHR 0x0A, CHR 0x0A]
     @ ''Please analyze the error and fix the workflow. You may need to:'' @ [CHR 0x0A]
     @ ''1. Update node parameters using update_node_parameters'' @ [CHR 0x0A]
     @ ''2. Remove and re-add nodes if the type is wrong'' @ [CHR 0x0A]
     @ ''3. Fix connections between nodes'' @ [CHR 0x0A, CHR 0x0A]
     @ ''After making corrections, call get_current_workflow to verify the fix.'' @ [CHR 0x0A]"

text \<open>The first loop over the response: what is logged, and whether a tool is used.\<close>

fun log_blocks :: "content_block list \<Rightarrow> log_entry list" where
  "log_blocks [] = []"
| "log_blocks (TextBlock t # bs) = AssistantLog t # log_blocks bs"
| "log_blocks (ToolUseBlock i n a # bs) = ToolLog n a # log_blocks bs"

fun is_tool_use :: "content_block \<Rightarrow> bool" where
  "is_tool_use (ToolUseBlock i n a) = True"
| "is_tool_use (TextBlock t) = False"

text \<open>
  The second loop: the tools run in order on the shared state, each result is logged and
  collected. What a tool call throws leaves the loop; the state changes and the log
  entries made so far stay.
\<close>

fun execute_tools ::
  "string \<Rightarrow> N8nApiClient option \<Rightarrow> content_block list
     \<Rightarrow> (string \<times> tool_result_content) list \<Rightarrow> log_entry list \<Rightarrow> WorkflowStateManager
     \<Rightarrow> (js_error + (string \<times> tool_result_content) list) \<times> log_entry list
         \<times> WorkflowStateManager" where
  "execute_tools baseUrl n8nClient [] toolResults log0 s = (Inr toolResults, log0, s)"
| "execute_tools baseUrl n8nClient (TextBlock t # bs) toolResults log0 s =
     execute_tools baseUrl n8nClient bs toolResults log0 s"
| "execute_tools baseUrl n8nClient (ToolUseBlock i n a # bs) toolResults log0 s =
     (case executeToolAsync baseUrl n8nClient n a s of
        (Inl error, s') \<Rightarrow> (Inl error, log0, s')
      | (Inr result, s') \<Rightarrow>
          (let resultContent = (case data result of
                                  Some d \<Rightarrow> ResultData d
                                | None \<Rightarrow> ResultText (tool_message result))
           in execute_tools baseUrl n8nClient bs (toolResults @ [(i, resultContent)])
                (log0 @ [ResultLog result]) s'))"

text \<open>The handler of the \<^verbatim>\<open>try\<close> block around the loop.\<close>

definition caught :: "js_error \<Rightarrow> log_entry list \<Rightarrow> nat \<Rightarrow> BuildResult" where
  "caught error log0 attempts =
     \<lparr>build_success = False, workflow = None,
      build_error = Some (if instanceof_Error error then error_message error
                          else ''Unknown error''),
      validationWarnings = None, conversationLog = log0,
      validationAttempts = Some attempts, requiresHumanInput = None,
      humanInputReason = None\<rparr>"

text \<open>What follows the loop when the turn limit is reached.\<close>

definition max_turns_reached :: "log_entry list \<Rightarrow> nat \<Rightarrow> WorkflowStateManager \<Rightarrow> BuildResult" where
  "max_turns_reached log0 attempts s =
     (if length (getNodes s) > 0
      then
        let wf = toN8nWorkflow ''Generated Workflow'' s;
            validation = validateWorkflow wf
        in if \<not> valid validation
           then \<lparr>build_success = False, workflow = None,
                  build_error = Some (''Generated workflow is invalid:'' @ [CHR 0x0A]
                                      @ join [CHR 0x0A] (errors validation)),
                  validationWarnings = None, conversationLog = log0,
                  validationAttempts = Some attempts, requiresHumanInput = Some True,
                  humanInputReason = Some ''Maximum turns reached. Please simplify your request or provide more specific instructions.''\<rparr>
           else \<lparr>build_success = True, workflow = Some wf, build_error = None,
                  validationWarnings = Some (warnings validation), conversationLog = log0,
                  validationAttempts = Some attempts, requiresHumanInput = None,
                  humanInputReason = None\<rparr>
      else \<lparr>build_success = False, workflow = None,
             build_error = Some ''Max turns reached without completing the workflow.'',
             validationWarnings = None, conversationLog = log0,
             validationAttempts = Some attempts, requiresHumanInput = Some True,
             humanInputReason = Some ''Unable to complete the workflow within the turn limit. Please try a simpler request.''\<rparr>)"

text \<open>
  The block that runs when a response uses no tool or stops with \<^verbatim>\<open>end_turn\<close>: it
  either ends the build or asks for a retry with the prompt to append and the new number
  of validation attempts.
\<close>

datatype finalize_outcome = Done BuildResult | Retry string nat

definition finalize :: "nat \<Rightarrow> log_entry list \<Rightarrow> nat \<Rightarrow> WorkflowStateManager \<Rightarrow> finalize_outcome" where
  "finalize maxRetries log0 attempts s =
     (if length (getNodes s) > 0
      then
        let wf = toN8nWorkflow ''Generated Workflow'' s;
            validation = validateWorkflow wf
        in if \<not> valid validation
           then
             let attempts1 = attempts + 1;
                 errorMsg = join [CHR 0x0A] (errors validation);
                 analysis = analyzeValidationError errorMsg
             in if recoverable analysis \<and> attempts1 < maxRetries
                then Retry (buildRetryPrompt errorMsg analysis) attempts1
                else Done \<lparr>build_success = False, workflow = None,
                            build_error = Some (''Generated workflow is invalid:'' @ [CHR 0x0A]
                                                @ errorMsg),
                            validationWarnings = None, conversationLog = log0,
                            validationAttempts = Some attempts1,
                            requiresHumanInput = Some (\<not> recoverable analysis),
                            humanInputReason = suggestedAction analysis\<rparr>
           else Done \<lparr>build_success = True, workflow = Some wf, build_error = None,
                       validationWarnings = Some (warnings validation), conversationLog = log0,
                       validationAttempts = Some attempts, requiresHumanInput = None,
                       humanInputReason = None\<rparr>
      else Done \<lparr>build_success = False, workflow = None,
                  build_error = Some ''No workflow was created. Please try a more specific request.'',
                  validationWarnings = None, conversationLog = log0,
                  validationAttempts = Some attempts, requiresHumanInput = None,
                  humanInputReason = None\<rparr>)"

text \<open>The \<^verbatim>\<open>while (turnCount < MAX_TURNS)\<close> loop inside the \<^verbatim>\<open>try\<close> block.\<close>

function turn_loop ::
  "Env \<Rightarrow> N8nApiClient option \<Rightarrow> (message_param list \<Rightarrow> js_error + llm_response)
     \<Rightarrow> nat \<Rightarrow> message_param list \<Rightarrow> log_entry list \<Rightarrow> nat \<Rightarrow> WorkflowStateManager
     \<Rightarrow> BuildResult \<times> WorkflowStateManager" where
  "turn_loop env n8nClient llm turnCount messages log0 attempts s =
     (if turnCount < MAX_TURNS
      then
        (case llm messages of
           Inl error \<Rightarrow> (caught error log0 attempts, s)
         | Inr response \<Rightarrow>
             (let log1 = log0 @ log_blocks (content response);
                  hasToolUse = list_ex is_tool_use (content response);
                  messages1 = messages @ [AssistantContent (content response)]
              in if \<not> hasToolUse \<or> stop_reason response = ''end_turn''
                 then
                   (case finalize (MAX_VALIDATION_RETRIES env) log1 attempts s of
                      Done result \<Rightarrow> (result, s)
                    | Retry prompt attempts1 \<Rightarrow>
                        turn_loop env n8nClient llm (turnCount + 1)
                          (messages1 @ [UserText prompt]) log1 attempts1 s)
                 else
                   (case execute_tools (N8N_BASE_URL env) n8nClient (content response) []
                           log1 s of
                      (Inl error, log2, s') \<Rightarrow> (caught error log2 attempts, s')
                    | (Inr toolResults, log2, s') \<Rightarrow>
                        turn_loop env n8nClient llm (turnCount + 1)
                          (messages1 @ [UserToolResults toolResults]) log2 attempts s')))
      else (max_turns_reached log0 attempts s, s))"
  by pat_completeness auto
termination
  by (relation "measure (\<lambda>(env, n8nClient, llm, turnCount, messages, log0, attempts, s).
        MAX_TURNS - turnCount)") auto

declare turn_loop.simps [simp del]

record BuildOptions =
  continueFrom :: "log_entry list option"

definition buildWorkflow ::
  "Env \<Rightarrow> N8nApiClient option \<Rightarrow> (message_param list \<Rightarrow> js_error + llm_response)
     \<Rightarrow> string \<Rightarrow> BuildOptions \<Rightarrow> WorkflowStateManager
     \<Rightarrow> BuildResult \<times> WorkflowStateManager" where
  "buildWorkflow env n8nClient llm userPrompt options workflowState =
     (let conversationLog = (case continueFrom options of Some l \<Rightarrow> l | None \<Rightarrow> []);
          s = (if continueFrom options = None then reset workflowState else workflowState)
      in turn_loop env n8nClient llm 0 [UserText userPrompt] conversationLog 0 s)"

section \<open>Example workflows and an example run\<close>

text \<open>Two connected nodes, the first a polling trigger; then the same without a trigger.\<close>

definition trigger_workflow :: N8nWorkflow where
  "trigger_workflow =
     toN8nWorkflow ''W'' (snd (run_calls
       [AddNode (add_input ''A'' ''n8n-nodes-base.Cron''),
        AddNode (add_input ''B'' ''n8n-nodes-base.set''),
        ConnectNodes (connect_input ''A'' ''B'' 0)] new_WorkflowStateManager))"

definition no_trigger_workflow :: N8nWorkflow where
  "no_trigger_workflow =
     toN8nWorkflow ''W'' (snd (run_calls
       [AddNode (add_input ''A'' ''n8n-nodes-base.if''),
        AddNode (add_input ''B'' ''n8n-nodes-base.set''),
        ConnectNodes (connect_input ''A'' ''B'' 0)] new_WorkflowStateManager))"

text \<open>
  A scripted run of the language model: the first response adds one node whose type lacks
  the namespace prefix, every later response is a text that ends the turn.
\<close>

definition slack_args :: "(string \<times> json) list" where
  "slack_args = [(''type'', JStr ''slack''), (''typeVersion'', JNum 1), (''name'', JStr ''Slack'')]"

definition retry_script :: "message_param list \<Rightarrow> js_error + llm_response" where
  "retry_script messages =
     (if length messages = 1
      then Inr \<lparr>content = [ToolUseBlock ''toolu_1'' ''add_node'' slack_args],
                stop_reason = ''tool_use''\<rparr>
      else Inr \<lparr>content = [TextBlock ''Done.''], stop_reason = ''end_turn''\<rparr>)"

text \<open>The state after that tool call, the validation error of its workflow, the
  classification of the error, and the failure that ends the run.\<close>

definition slack_state :: WorkflowStateManager where
  "slack_state =
     snd (executeToolAsync ''http://localhost:5678'' None ''add_node'' slack_args
            new_WorkflowStateManager)"

definition slack_error :: string where
  "slack_error = ''nodes.0.type: '' @ node_type_message"

definition slack_analysis :: ErrorAnalysis where
  "slack_analysis =
     \<lparr>recoverable = True,
      suggestedAction = Some ''Review the error message and fix the issue.''\<rparr>"

definition slack_failure :: "log_entry list \<Rightarrow> BuildResult" where
  "slack_failure log0 =
     \<lparr>build_success = False, workflow = None,
      build_error = Some (''Generated workflow is invalid:'' @ [CHR 0x0A] @ slack_error),
      validationWarnings = None, conversationLog = log0,
      validationAttempts = Some 3,
      requiresHumanInput = Some False,
      humanInputReason = Some ''Review the error message and fix the issue.''\<rparr>"


section \<open>Properties of the state manager\<close>

lemma Map_has_set [simp]: "Map_has (Map_set k v m) k' = (k' = k \<or> Map_has m k')"
  by (induction m) (auto simp: Map_has_def)

lemma Map_get_set [simp]: "Map_get (Map_set k v m) k' = (if k' = k then Some v else Map_get m k')"
  by (induction m) (auto simp: Map_get_def)

lemma Map_get_None_iff: "(Map_get m k = None) = (\<not> Map_has m k)"
  by (simp add: Map_get_def Map_has_def map_of_eq_None_iff)

lemma Map_has_delete [simp]: "Map_has (Map_delete k m) k' = (k' \<noteq> k \<and> Map_has m k')"
  by (auto simp: Map_has_def Map_delete_def)

lemma prune_connections_set:
  "set (prune_connections nm m) =
     {(src, filter (\<lambda>c. target c \<noteq> nm) conns) | src conns.
        (src, conns) \<in> set m \<and> filter (\<lambda>c. target c \<noteq> nm) conns \<noteq> []}"
  by (induction nm m rule: prune_connections.induct) (auto simp: Let_def)

lemma group_by_output_get:
  "group_of (group_by_output conns g) i = group_of g i @ filter (\<lambda>c. sourceOutput c = i) conns"
  by (induction conns arbitrary: g) (auto simp: group_of_def Let_def)

lemma Map_set_keys: "fst ` set (Map_set k v m) = insert k (fst ` set m)"
  by (induction m) auto

lemma group_by_output_keys:
  "fst ` set (group_by_output conns g) = fst ` set g \<union> sourceOutput ` set conns"
  by (induction conns arbitrary: g) (simp_all add: Let_def Map_set_keys)

lemma fold_max_Max: "ks \<noteq> [] \<Longrightarrow> fold max (tl ks) (hd ks) = Max (set ks)"
  using Max.set_eq_fold [of "hd ks" "tl ks"] by simp

lemma mainConnections_eq:
  "mainConnections conns =
     (if conns = [] then []
      else map (\<lambda>i. map to_target (filter (\<lambda>c. sourceOutput c = of_int i) conns))
               [0..\<lfloor>Max (sourceOutput ` set conns)\<rfloor>])"
proof (cases "conns = []")
  case True
  then show ?thesis by (simp add: mainConnections_def)
next
  case False
  let ?g = "group_by_output conns []"
  have keys: "fst ` set ?g = sourceOutput ` set conns"
    by (simp add: group_by_output_keys)
  with False have ne: "map fst ?g \<noteq> []" by auto
  have grp: "\<And>i. group_of ?g i = filter (\<lambda>c. sourceOutput c = i) conns"
    using group_by_output_get [of conns "[]"] by (simp add: group_of_def Map_get_def)
  show ?thesis
    using False ne fold_max_Max [OF ne] keys
    by (simp add: mainConnections_def Let_def grp)
qed

lemma mainConnections_targets:
  "slot \<in> set (mainConnections conns) \<Longrightarrow> t \<in> set slot \<Longrightarrow> t \<in> to_target ` set conns"
  by (auto simp: mainConnections_eq split: if_splits)



lemma Map_set_new: "\<not> Map_has m k \<Longrightarrow> Map_set k v m = m @ [(k, v)]"
  by (induction m) (auto simp: Map_has_def)

lemma Map_set_same_position:
  "Map_get m k = Some n \<Longrightarrow> position n' = position n \<Longrightarrow>
   map (\<lambda>e. position (snd e)) (Map_set k n' m) = map (\<lambda>e. position (snd e)) m"
  by (induction m) (auto simp: Map_get_def split: if_splits)

lemma call_positions:
  assumes "\<not> is_RemoveNode c" and "call c s = (added, s')"
  shows "map (\<lambda>e. position (snd e)) (nodes s') = map (\<lambda>e. position (snd e)) (nodes s) @ map position added
       \<and> map position added = map grid_position [length (nodes s)..<length (nodes s) + length added]"
proof (cases c)
  case (AddNode input)
  with assms show ?thesis
    by (auto simp: addNode_def Let_def Map_set_new split: if_splits)
next
  case (RemoveNode nm)
  with assms show ?thesis by simp
next
  case (ConnectNodes input)
  with assms show ?thesis
    by (auto simp: connectNodes_def Let_def split: if_splits)
next
  case (UpdateNodeParameters nm ps)
  with assms show ?thesis
    by (auto simp: updateNodeParameters_def Map_set_same_position split: option.splits)
qed

lemma run_calls_positions:
  "\<forall>c \<in> set cs. \<not> is_RemoveNode c \<Longrightarrow> run_calls cs s = (added, s') \<Longrightarrow>
     map (\<lambda>e. position (snd e)) (nodes s') = map (\<lambda>e. position (snd e)) (nodes s) @ map position added
   \<and> map position added = map grid_position [length (nodes s)..<length (nodes s) + length added]"
proof (induction cs arbitrary: s added s')
  case Nil
  then show ?case by simp
next
  case (Cons c cs)
  obtain a1 s1 where c1: "call c s = (a1, s1)" by (cases "call c s")
  obtain a2 s2 where c2: "run_calls cs s1 = (a2, s2)" by (cases "run_calls cs s1")
  from Cons.prems c1 c2 have eq: "added = a1 @ a2" "s' = s2" by simp_all
  from Cons.prems have nr: "\<not> is_RemoveNode c" "\<forall>c \<in> set cs. \<not> is_RemoveNode c" by simp_all
  note h1 = call_positions [OF nr(1) c1]
  note h2 = Cons.IH [OF nr(2) c2]
  from h1 have len: "length (nodes s1) = length (nodes s) + length a1"
    by (metis length_append length_map)
  have "[length (nodes s)..<length (nodes s) + length (a1 @ a2)]
        = [length (nodes s)..<length (nodes s) + length a1]
          @ [length (nodes s1)..<length (nodes s1) + length a2]"
    using len upt_add_eq_append [of "length (nodes s)" "length (nodes s) + length a1" "length a2"]
    by (simp add: add.assoc)
  moreover from h1 h2 have "map (\<lambda>e. position (snd e)) (nodes s2)
      = map (\<lambda>e. position (snd e)) (nodes s) @ map position (a1 @ a2)"
    by simp
  moreover from h1 h2 have "map position (a1 @ a2)
      = map grid_position ([length (nodes s)..<length (nodes s) + length a1]
          @ [length (nodes s1)..<length (nodes s1) + length a2])"
    by simp
  ultimately show ?case using eq by simp
qed

lemma inj_grid_position: "inj grid_position"
proof (rule injI)
  fix x y assume "grid_position x = grid_position y"
  then have "x mod 4 = y mod 4" "x div 4 = y div 4"
    by (simp_all add: grid_position_def)
  then show "x = y" by (metis div_mult_mod_eq)
qed

subsection \<open>Evaluation of the examples\<close>

lemmas manager_eval =
  new_WorkflowStateManager_def add_input_def connect_input_def addNode_def removeNode_def
  connectNodes_def or_zero_def Map_has_def Map_get_def Map_delete_def grid_position_def Let_def
  show_nat.simps digit_char_def

lemmas serialize_eval =
  toN8nWorkflow_def mainConnections_def group_of_def to_target_def upto.simps

lemma toN8nWorkflow_keys:
  "Map_has (wf_connections (toN8nWorkflow nm s)) src = Map_has (connections s) src"
  by (force simp: toN8nWorkflow_def Map_has_def)

lemma prune_connections_no_target:
  "(src, conns) \<in> set (prune_connections X m) \<Longrightarrow> c \<in> set conns \<Longrightarrow> target c \<noteq> X"
  by (auto simp: prune_connections_set)

lemma toN8nWorkflow_targets:
  assumes "(src, slots) \<in> set (wf_connections (toN8nWorkflow nm s))"
    and "slot \<in> set slots" and "t \<in> set slot"
  shows "\<exists>conns c. (src, conns) \<in> set (connections s) \<and> c \<in> set conns \<and> node t = target c"
proof -
  from assms(1) obtain conns where c: "(src, conns) \<in> set (connections s)"
    and sl: "slots = mainConnections conns"
    by (auto simp: toN8nWorkflow_def)
  from mainConnections_targets [of slot conns t] assms(2,3) sl
  obtain c' where "c' \<in> set conns" "t = to_target c'" by auto
  with c show ?thesis by (auto simp: to_target_def)
qed

section \<open>Claims about the state manager\<close>

subsection \<open>C2: grid layout\<close>

text \<open>
  C2 as stated fails. \<^verbatim>\<open>addNode\<close> takes the grid index from the number of nodes
  present, not from the number of nodes added so far. After A and B are added and A is
  removed, the node C (the successful addition number 2, counting from 0) is placed at
  (350, 100) instead of (600, 100), on top of B, which is still present.
\<close>

theorem grid_layout_after_removal_counterexample:
  "node_name (fst (run_calls layout_calls new_WorkflowStateManager) ! 2) = ''C''
   \<and> position (fst (run_calls layout_calls new_WorkflowStateManager) ! 2)
       \<noteq> (100 + int (2 mod 4) * 250, 100 + int (2 div 4) * 150)
   \<and> map node_name (getNodes (snd (run_calls layout_calls new_WorkflowStateManager)))
       = [''B'', ''C'']
   \<and> map position (getNodes (snd (run_calls layout_calls new_WorkflowStateManager)))
       = [(350, 100), (350, 100)]"
  by (simp add: layout_calls_def getNodes_def manager_eval)

text \<open>
  C2, amended: a successful \<^verbatim>\<open>addNode\<close> in a state holding k nodes assigns the position
  (100 + (k mod 4) * 250, 100 + floor(k / 4) * 150). For every sequence of calls from a new
  manager that contains no \<^verbatim>\<open>removeNode\<close>, the n-th successfully added node
  (0-indexed) has position (100 + (n mod 4) * 250, 100 + floor(n / 4) * 150), and no two
  nodes present share a position.
\<close>

theorem grid_layout_by_node_count:
  "(\<not> Map_has (nodes s) (name_in input) \<longrightarrow>
      (\<exists>n s'. addNode input s = (Inr n, s') \<and> position n = grid_position (length (nodes s))))
   \<and> ((\<forall>c \<in> set cs. \<not> is_RemoveNode c) \<longrightarrow>
        (\<forall>n < length (fst (run_calls cs new_WorkflowStateManager)).
           position (fst (run_calls cs new_WorkflowStateManager) ! n)
             = (100 + int (n mod 4) * 250, 100 + int (n div 4) * 150))
        \<and> distinct (map position (getNodes (snd (run_calls cs new_WorkflowStateManager)))))"
proof (intro conjI impI)
  show "\<exists>n s'. addNode input s = (Inr n, s') \<and> position n = grid_position (length (nodes s))"
    if "\<not> Map_has (nodes s) (name_in input)"
    using that by (simp add: addNode_def Let_def)
next
  assume nr: "\<forall>c \<in> set cs. \<not> is_RemoveNode c"
  obtain added s' where r: "run_calls cs new_WorkflowStateManager = (added, s')"
    by (cases "run_calls cs new_WorkflowStateManager")
  from run_calls_positions [OF nr r]
  have p1: "map (\<lambda>e. position (snd e)) (nodes s') = map position added"
    and p2: "map position added = map grid_position [0..<length added]"
    by (simp_all add: new_WorkflowStateManager_def)
  show "\<forall>n < length (fst (run_calls cs new_WorkflowStateManager)).
           position (fst (run_calls cs new_WorkflowStateManager) ! n)
             = (100 + int (n mod 4) * 250, 100 + int (n div 4) * 150)"
  proof (intro allI impI)
    fix n assume "n < length (fst (run_calls cs new_WorkflowStateManager))"
    then have n: "n < length added" using r by simp
    then have "map position added ! n = grid_position n"
      using p2 by simp
    with n show "position (fst (run_calls cs new_WorkflowStateManager) ! n)
             = (100 + int (n mod 4) * 250, 100 + int (n div 4) * 150)"
      using r by (simp add: grid_position_def)
  qed
  have "distinct (map grid_position [0..<length added])"
    by (simp add: distinct_map inj_on_subset [OF inj_grid_position])
  then show "distinct (map position (getNodes (snd (run_calls cs new_WorkflowStateManager))))"
    using p1 p2 r by (simp add: getNodes_def comp_def)
qed

theorem grid_layout_by_node_count_witness:
  "\<not> Map_has (nodes single_state) ''B''
   \<and> filter is_RemoveNode grid_calls = []
   \<and> map node_name (fst (run_calls grid_calls new_WorkflowStateManager)) = [''A'', ''B'', ''C'']
   \<and> position (fst (run_calls grid_calls new_WorkflowStateManager) ! 2) = (600, 100)
   \<and> distinct (map position (getNodes (snd (run_calls grid_calls new_WorkflowStateManager))))"
  using grid_layout_by_node_count [of single_state "add_input ''B'' ''n8n-nodes-base.set''" grid_calls]
  by (simp add: grid_calls_def single_state_def manager_eval)

subsection \<open>C3: a duplicate name leaves the state unchanged\<close>

text \<open>
  C3: for every state and every \<^verbatim>\<open>addNode\<close> call whose name is the name of a node
  already present, the call throws the duplicate-name error and the state is the one
  before the call: node map, connection map and ID counter are unchanged, so any later
  \<^verbatim>\<open>addNode\<close> behaves as without the failed call, and the next successful one gets
  the ID \<open>node_(nodeCounter + 1)\<close>.
\<close>

theorem addNode_duplicate_name_no_mutation:
  \<open>Map_has (nodes s) (name_in input) \<Longrightarrow>
     fst (addNode input s)
       = Inl (Error (''Node with name "'' @ name_in input @ ''" already exists''))
   \<and> snd (addNode input s) = s
   \<and> nodes (snd (addNode input s)) = nodes s
   \<and> connections (snd (addNode input s)) = connections s
   \<and> nodeCounter (snd (addNode input s)) = nodeCounter s
   \<and> (\<forall>input'. addNode input' (snd (addNode input s)) = addNode input' s)
   \<and> (\<forall>input'. \<not> Map_has (nodes s) (name_in input') \<longrightarrow>
         (\<exists>n s'. addNode input' (snd (addNode input s)) = (Inr n, s')
                \<and> node_id n = ''node_'' @ show_nat (nodeCounter s + 1)))\<close>
  by (simp add: addNode_def Let_def)

theorem addNode_duplicate_name_no_mutation_witness:
  \<open>Map_has (nodes single_state) (name_in (add_input ''A'' ''n8n-nodes-base.if''))
   \<and> addNode (add_input ''A'' ''n8n-nodes-base.if'') single_state
       = (Inl (Error ''Node with name "A" already exists''), single_state)
   \<and> node_id (projr (fst (addNode (add_input ''B'' ''n8n-nodes-base.if'')
        (snd (addNode (add_input ''A'' ''n8n-nodes-base.if'') single_state))))) = ''node_2''\<close>
  using addNode_duplicate_name_no_mutation [of single_state "add_input ''A'' ''n8n-nodes-base.if''"]
  by (simp add: single_state_def manager_eval)

subsection \<open>C4: cascade deletion\<close>

text \<open>
  C4: when X is present, \<^verbatim>\<open>removeNode(X)\<close> returns true, and afterwards the serialized
  workflow has no connections entry under the key X and no connection target that names
  X; every entry that is left holds at least one edge, and a source is still a key
  exactly when it is not X and one of its edges went to a node other than X (so a source
  whose edge list is emptied by the pruning loses its entry). When X is absent,
  \<^verbatim>\<open>removeNode(X)\<close> returns false and the state is unchanged.
\<close>

theorem removeNode_cascade:
  "(Map_has (nodes s) X \<longrightarrow>
      fst (removeNode X s) = True
    \<and> \<not> Map_has (wf_connections (toN8nWorkflow nm (snd (removeNode X s)))) X
    \<and> (\<forall>(src, slots) \<in> set (wf_connections (toN8nWorkflow nm (snd (removeNode X s)))).
          \<forall>slot \<in> set slots. \<forall>t \<in> set slot. node t \<noteq> X)
    \<and> (\<forall>(src, conns) \<in> set (connections (snd (removeNode X s))). conns \<noteq> [])
    \<and> (\<forall>src. Map_has (wf_connections (toN8nWorkflow nm (snd (removeNode X s)))) src
          = (src \<noteq> X \<and> (\<exists>conns c. (src, conns) \<in> set (connections s) \<and> c \<in> set conns
                                    \<and> target c \<noteq> X))))
   \<and> (\<not> Map_has (nodes s) X \<longrightarrow> removeNode X s = (False, s))"
proof (intro conjI impI)
  assume has: "Map_has (nodes s) X"
  let ?s' = "snd (removeNode X s)"
  have conns': "connections ?s' = prune_connections X (Map_delete X (connections s))"
    using has by (simp add: removeNode_def)
  show "fst (removeNode X s) = True" using has by (simp add: removeNode_def)
  have keys: "Map_has (connections ?s') src
          = (src \<noteq> X \<and> (\<exists>conns c. (src, conns) \<in> set (connections s) \<and> c \<in> set conns
                                    \<and> target c \<noteq> X))" for src
  proof -
    have "Map_has (connections ?s') src
      = (\<exists>conns. (src, conns) \<in> set (Map_delete X (connections s))
                \<and> filter (\<lambda>c. target c \<noteq> X) conns \<noteq> [])"
      unfolding conns' by (force simp: Map_has_def prune_connections_set)
    also have "\<dots> = (src \<noteq> X \<and> (\<exists>conns c. (src, conns) \<in> set (connections s) \<and> c \<in> set conns
                                    \<and> target c \<noteq> X))"
      by (auto simp: Map_delete_def filter_empty_conv)
    finally show ?thesis .
  qed
  then show "\<not> Map_has (wf_connections (toN8nWorkflow nm ?s')) X"
    by (simp add: toN8nWorkflow_keys)
  show "\<forall>src. Map_has (wf_connections (toN8nWorkflow nm ?s')) src
          = (src \<noteq> X \<and> (\<exists>conns c. (src, conns) \<in> set (connections s) \<and> c \<in> set conns
                                    \<and> target c \<noteq> X))"
    using keys by (simp add: toN8nWorkflow_keys)
  show "\<forall>(src, conns) \<in> set (connections ?s'). conns \<noteq> []"
    unfolding conns' by (auto simp: prune_connections_set)
  show "\<forall>(src, slots) \<in> set (wf_connections (toN8nWorkflow nm ?s')).
          \<forall>slot \<in> set slots. \<forall>t \<in> set slot. node t \<noteq> X"
  proof -
    have "node t \<noteq> X"
      if a: "(src, slots) \<in> set (wf_connections (toN8nWorkflow nm ?s'))"
        "slot \<in> set slots" "t \<in> set slot" for src slots slot t
    proof -
      from toN8nWorkflow_targets [OF a] obtain conns c
        where "(src, conns) \<in> set (connections ?s')" "c \<in> set conns" "node t = target c"
        by blast
      with prune_connections_no_target [of src conns X "Map_delete X (connections s)" c]
      show ?thesis unfolding conns' by simp
    qed
    then show ?thesis by blast
  qed
next
  assume "\<not> Map_has (nodes s) X"
  then show "removeNode X s = (False, s)" by (simp add: removeNode_def)
qed

theorem removeNode_cascade_witness:
  "Map_has (nodes cascade_state) ''B''
   \<and> wf_connections (toN8nWorkflow ''W'' cascade_state)
       = [(''A'', [[\<lparr>node = ''B'', conn_type = main, index = 0\<rparr>],
                   [\<lparr>node = ''C'', conn_type = main, index = 0\<rparr>]]),
          (''C'', [[\<lparr>node = ''B'', conn_type = main, index = 0\<rparr>]])]
   \<and> fst (removeNode ''B'' cascade_state) = True
   \<and> wf_connections (toN8nWorkflow ''W'' (snd (removeNode ''B'' cascade_state)))
       = [(''A'', [[], [\<lparr>node = ''C'', conn_type = main, index = 0\<rparr>]])]
   \<and> \<not> Map_has (nodes cascade_state) ''Z''
   \<and> removeNode ''Z'' cascade_state = (False, cascade_state)"
  using removeNode_cascade [of cascade_state "''B''" "''W''"]
    removeNode_cascade [of cascade_state "''Z''" "''W''"]
  by (simp add: cascade_state_def branch_state_def manager_eval serialize_eval)

subsection \<open>C5: output slots of the serialized connections\<close>




section \<open>Properties of the validator and of the error classifier\<close>

lemmas validator_eval =
  validateWorkflow_def n8nWorkflowSchema_def n8nNodeSchema_def n8nConnectionsSchema_def
  n8nConnectionTargetSchema_def array_issues_def string_min1_def node_type_regex_def
  node_type_message_def
  connection_errors_def orphan_warnings_def isTriggerNode_def no_trigger_warning_def
  format_issue_def toLowerCase_def toLowerChar_def endsWith_def enumerate_eq_zip

lemma startsWith_iff: "startsWith s p = (\<exists>post. s = p @ post)"
  by (induction s p rule: startsWith.induct) auto

lemma str_includes_iff: "str_includes s p = (\<exists>pre post. s = pre @ p @ post)"
proof (induction s)
  case Nil
  then show ?case by auto
next
  case (Cons c cs)
  show ?case
  proof
    assume "str_includes (c # cs) p"
    then consider "startsWith (c # cs) p" | "str_includes cs p" by auto
    then show "\<exists>pre post. c # cs = pre @ p @ post"
    proof cases
      case 1
      then obtain post where "c # cs = p @ post" by (auto simp: startsWith_iff)
      then have "c # cs = [] @ p @ post" by simp
      then show ?thesis by blast
    next
      case 2
      with Cons.IH obtain pre post where "cs = pre @ p @ post" by auto
      then have "c # cs = (c # pre) @ p @ post" by simp
      then show ?thesis by blast
    qed
  next
    assume "\<exists>pre post. c # cs = pre @ p @ post"
    then obtain pre post where e: "c # cs = pre @ p @ post" by auto
    show "str_includes (c # cs) p"
    proof (cases pre)
      case Nil
      with e have "startsWith (c # cs) p" by (auto simp: startsWith_iff)
      then show ?thesis by simp
    next
      case (Cons a pre')
      with e have "cs = pre' @ p @ post" by simp
      with Cons.IH have "str_includes cs p" by blast
      then show ?thesis by simp
    qed
  qed
qed

lemma endsWith_iff: "endsWith s p = (\<exists>pre. s = pre @ p)"
proof -
  have "endsWith s p = (\<exists>post. rev s = rev p @ post)"
    by (simp add: endsWith_def startsWith_iff)
  also have "\<dots> = (\<exists>pre. s = pre @ p)"
  proof
    assume "\<exists>post. rev s = rev p @ post"
    then obtain post where "rev s = rev p @ post" by auto
    then have "s = rev post @ p" by (metis rev_append rev_rev_ident)
    then show "\<exists>pre. s = pre @ p" by blast
  next
    assume "\<exists>pre. s = pre @ p"
    then obtain pre where "s = pre @ p" by auto
    then have "rev s = rev p @ rev pre" by simp
    then show "\<exists>post. rev s = rev p @ post" by blast
  qed
  finally show ?thesis .
qed

lemma includes_toLowerCase_iff:
  "str_includes (toLowerCase s) p = (\<exists>pre mid post. s = pre @ mid @ post \<and> toLowerCase mid = p)"
  unfolding str_includes_iff toLowerCase_def
  by (auto simp: map_eq_append_conv append_eq_map_conv) (metis map_append)

lemma endsWith_toLowerCase_iff:
  "endsWith (toLowerCase s) p = (\<exists>pre suf. s = pre @ suf \<and> toLowerCase suf = p)"
  unfolding endsWith_iff toLowerCase_def
  by (auto simp: map_eq_append_conv append_eq_map_conv)

lemma isTriggerNode_iff:
  "isTriggerNode ty =
     ((\<exists>pre mid post. ty = pre @ mid @ post
          \<and> (toLowerCase mid = ''trigger'' \<or> toLowerCase mid = ''webhook''))
      \<or> (\<exists>pre suf. ty = pre @ suf \<and> toLowerCase suf = ''.cron''))"
  unfolding isTriggerNode_def Let_def includes_toLowerCase_iff endsWith_toLowerCase_iff
  by blast

lemma orphan_warnings_hd: "x \<in> set (orphan_warnings ns conns) \<Longrightarrow> hd x = CHR ''N''"
  by (auto simp: orphan_warnings_def Let_def split: if_splits)

lemma no_trigger_warning_not_orphan:
  "no_trigger_warning \<notin> set (orphan_warnings ns conns)"
proof
  assume "no_trigger_warning \<in> set (orphan_warnings ns conns)"
  then have "hd no_trigger_warning = CHR ''N''"
    by (rule orphan_warnings_hd)
  then show False by (simp add: no_trigger_warning_def)
qed

lemma duplicate_name_errors_names:
  "map node_name ns' = map node_name ns \<Longrightarrow>
   duplicate_name_errors ns' seen = duplicate_name_errors ns seen"
proof (induction ns arbitrary: ns' seen)
  case Nil
  then show ?case by simp
next
  case (Cons n ns)
  then obtain n' ms where "ns' = n' # ms" "node_name n' = node_name n"
    "map node_name ms = map node_name ns"
    by (cases ns') auto
  with Cons.IH [of ms "node_name n # seen"] show ?case by simp
qed

lemma validateWorkflow_errors_semantic:
  "n8nWorkflowSchema w = [] \<Longrightarrow>
   errors (validateWorkflow w) =
     (if length (remdups (map node_name (wf_nodes w))) \<noteq> length (map node_name (wf_nodes w))
      then duplicate_name_errors (wf_nodes w) [] else [])
     @ (if length (remdups (map node_id (wf_nodes w))) \<noteq> length (map node_id (wf_nodes w))
        then [''Duplicate node IDs detected''] else [])
     @ connection_errors (map node_name (wf_nodes w)) (wf_connections w)"
  by (simp add: validateWorkflow_def Let_def)

lemma nodes_issue_member:
  "wf_nodes w = [] \<Longrightarrow>
     \<lparr>path = [''nodes''], message = ''Workflow must have at least one node''\<rparr>
       \<in> set (n8nWorkflowSchema w)"
  by (simp add: n8nWorkflowSchema_def)

lemma no_trigger_workflow_eval:
  "n8nWorkflowSchema no_trigger_workflow = []
   \<and> validateWorkflow no_trigger_workflow
       = \<lparr>valid = True, errors = [],
          warnings = [no_trigger_warning, ''Node '' @ [CHR 0x22] @ ''A'' @ [CHR 0x22]
                        @ '' has no incoming connections'']\<rparr>"
  by (simp add: no_trigger_workflow_def manager_eval serialize_eval validator_eval)

lemma trigger_workflow_eval:
  "n8nWorkflowSchema trigger_workflow = []
   \<and> validateWorkflow trigger_workflow = \<lparr>valid = True, errors = [], warnings = []\<rparr>"
  by (simp add: trigger_workflow_def manager_eval serialize_eval validator_eval)

lemma empty_name_workflow_eval:
  "n8nWorkflowSchema (toN8nWorkflow [] new_WorkflowStateManager) \<noteq> []
   \<and> validateWorkflow (toN8nWorkflow [] new_WorkflowStateManager)
       = \<lparr>valid = False,
          errors = [''name: Workflow name is required'',
                    ''nodes: Workflow must have at least one node''],
          warnings = []\<rparr>"
  by (simp add: manager_eval serialize_eval validator_eval)

section \<open>Claims about the validator\<close>

subsection \<open>C6: validity and the error list\<close>

text \<open>
  C6: for every workflow, \<^verbatim>\<open>valid\<close> is true exactly when the error list is empty, so
  warnings have no influence on it; and when the schema phase finds violations, the result
  is invalid, its errors are exactly the formatted schema issues, and no semantic check has
  run: the warning list is empty.
\<close>

theorem validateWorkflow_valid_iff_no_errors:
  "valid (validateWorkflow w) = (errors (validateWorkflow w) = [])
   \<and> (n8nWorkflowSchema w \<noteq> [] \<longrightarrow>
        \<not> valid (validateWorkflow w)
      \<and> errors (validateWorkflow w) = map format_issue (n8nWorkflowSchema w)
      \<and> warnings (validateWorkflow w) = [])"
  by (simp add: validateWorkflow_def Let_def)

theorem validateWorkflow_valid_iff_no_errors_witness:
  "n8nWorkflowSchema (toN8nWorkflow [] new_WorkflowStateManager) \<noteq> []
   \<and> validateWorkflow (toN8nWorkflow [] new_WorkflowStateManager)
       = \<lparr>valid = False,
          errors = [''name: Workflow name is required'',
                    ''nodes: Workflow must have at least one node''],
          warnings = []\<rparr>
   \<and> valid (validateWorkflow no_trigger_workflow) = True
   \<and> errors (validateWorkflow no_trigger_workflow) = []
   \<and> length (warnings (validateWorkflow no_trigger_workflow)) = 2"
  using validateWorkflow_valid_iff_no_errors [of "toN8nWorkflow [] new_WorkflowStateManager"]
    empty_name_workflow_eval no_trigger_workflow_eval
  by simp


subsection \<open>C7: a missing trigger is a warning only\<close>

text \<open>
  C7: for every structurally valid workflow, the no-trigger warning is among the warnings
  exactly when no node has a type that contains, up to the case of its letters,
  \<open>trigger\<close> or \<open>webhook\<close>, or that ends in \<open>.cron\<close>. The error list, and with it
  validity, is a function of the node names, the node ids and the connections alone: two
  structurally valid workflows that differ only in their node types (and so in the
  presence of a trigger) have the same errors.
\<close>

theorem no_trigger_is_warning_only:
  assumes "n8nWorkflowSchema w = []"
  shows "(no_trigger_warning \<in> set (warnings (validateWorkflow w)))
           = (\<forall>n \<in> set (wf_nodes w).
                \<not> ((\<exists>pre mid post. node_type n = pre @ mid @ post
                        \<and> (toLowerCase mid = ''trigger'' \<or> toLowerCase mid = ''webhook''))
                   \<or> (\<exists>pre suf. node_type n = pre @ suf \<and> toLowerCase suf = ''.cron'')))
       \<and> (\<forall>w'. n8nWorkflowSchema w' = []
               \<and> map node_name (wf_nodes w') = map node_name (wf_nodes w)
               \<and> map node_id (wf_nodes w') = map node_id (wf_nodes w)
               \<and> wf_connections w' = wf_connections w
             \<longrightarrow> errors (validateWorkflow w') = errors (validateWorkflow w)
               \<and> valid (validateWorkflow w') = valid (validateWorkflow w))"
proof (intro conjI allI impI)
  have "(no_trigger_warning \<in> set (warnings (validateWorkflow w)))
          = (\<not> list_ex (\<lambda>n. isTriggerNode (node_type n)) (wf_nodes w))"
    using assms by (simp add: validateWorkflow_def Let_def no_trigger_warning_not_orphan)
  also have "\<dots> = (\<forall>n \<in> set (wf_nodes w). \<not> isTriggerNode (node_type n))"
    by (simp add: list_ex_iff)
  finally show "(no_trigger_warning \<in> set (warnings (validateWorkflow w)))
           = (\<forall>n \<in> set (wf_nodes w).
                \<not> ((\<exists>pre mid post. node_type n = pre @ mid @ post
                        \<and> (toLowerCase mid = ''trigger'' \<or> toLowerCase mid = ''webhook''))
                   \<or> (\<exists>pre suf. node_type n = pre @ suf \<and> toLowerCase suf = ''.cron'')))"
    unfolding isTriggerNode_iff .
next
  fix w'
  assume h: "n8nWorkflowSchema w' = []
               \<and> map node_name (wf_nodes w') = map node_name (wf_nodes w)
               \<and> map node_id (wf_nodes w') = map node_id (wf_nodes w)
               \<and> wf_connections w' = wf_connections w"
  then have s': "n8nWorkflowSchema w' = []"
    and a: "map node_name (wf_nodes w') = map node_name (wf_nodes w)"
    and b: "map node_id (wf_nodes w') = map node_id (wf_nodes w)"
    and c: "wf_connections w' = wf_connections w"
    by blast+
  from a have d: "duplicate_name_errors (wf_nodes w') [] = duplicate_name_errors (wf_nodes w) []"
    by (rule duplicate_name_errors_names)
  show e: "errors (validateWorkflow w') = errors (validateWorkflow w)"
    unfolding validateWorkflow_errors_semantic [OF s'] validateWorkflow_errors_semantic [OF assms]
      a b c d ..
  have "valid (validateWorkflow v) = (errors (validateWorkflow v) = [])" for v
    by (simp add: validateWorkflow_def Let_def)
  with e show "valid (validateWorkflow w') = valid (validateWorkflow w)" by simp
qed

theorem no_trigger_is_warning_only_witness:
  "n8nWorkflowSchema no_trigger_workflow = []
   \<and> n8nWorkflowSchema trigger_workflow = []
   \<and> validateWorkflow no_trigger_workflow
       = \<lparr>valid = True, errors = [],
          warnings = [no_trigger_warning, ''Node '' @ [CHR 0x22] @ ''A'' @ [CHR 0x22]
                        @ '' has no incoming connections'']\<rparr>
   \<and> validateWorkflow trigger_workflow = \<lparr>valid = True, errors = [], warnings = []\<rparr>"
proof -
  have h: "n8nWorkflowSchema no_trigger_workflow = []"
    using no_trigger_workflow_eval by blast
  note no_trigger_is_warning_only [OF h]
  then show ?thesis using no_trigger_workflow_eval trigger_workflow_eval by blast
qed

subsection \<open>C10: a workflow without nodes is invalid\<close>

text \<open>
  C10: the schema requires at least one node. Every workflow with no nodes is invalid,
  with the error \<open>nodes: Workflow must have at least one node\<close>; the workflow that a
  new or reset state manager serializes has no nodes.
\<close>

theorem empty_workflow_invalid:
  "(wf_nodes w = [] \<longrightarrow>
       valid (validateWorkflow w) = False
     \<and> ''nodes: Workflow must have at least one node'' \<in> set (errors (validateWorkflow w))
     \<and> list_ex (\<lambda>e. str_includes e ''Workflow must have at least one node'')
          (errors (validateWorkflow w)))
   \<and> wf_nodes (toN8nWorkflow nm new_WorkflowStateManager) = []
   \<and> wf_nodes (toN8nWorkflow nm (reset s)) = []"
proof (intro conjI impI)
  assume e: "wf_nodes w = []"
  let ?i = "\<lparr>path = [''nodes''], message = ''Workflow must have at least one node''\<rparr>"
  from nodes_issue_member [OF e] have m: "?i \<in> set (n8nWorkflowSchema w)" .
  then have ne: "n8nWorkflowSchema w \<noteq> []" by auto
  then have errs: "errors (validateWorkflow w) = map format_issue (n8nWorkflowSchema w)"
    and "valid (validateWorkflow w) = False"
    by (simp_all add: validateWorkflow_def Let_def)
  then show "valid (validateWorkflow w) = False" by simp
  have f: "format_issue ?i = ''nodes: Workflow must have at least one node''"
    by (simp add: format_issue_def)
  from m have "format_issue ?i \<in> set (errors (validateWorkflow w))"
    unfolding errs set_map by (rule imageI)
  then show mem: "''nodes: Workflow must have at least one node'' \<in> set (errors (validateWorkflow w))"
    using f by simp
  have "str_includes ''nodes: Workflow must have at least one node''
          ''Workflow must have at least one node''"
    by simp
  with mem show "list_ex (\<lambda>e. str_includes e ''Workflow must have at least one node'')
          (errors (validateWorkflow w))"
    unfolding list_ex_iff by blast
qed (simp_all add: toN8nWorkflow_def new_WorkflowStateManager_def reset_def)

theorem empty_workflow_invalid_witness:
  "wf_nodes (toN8nWorkflow ''Generated Workflow'' new_WorkflowStateManager) = []
   \<and> validateWorkflow (toN8nWorkflow ''Generated Workflow'' new_WorkflowStateManager)
       = \<lparr>valid = False, errors = [''nodes: Workflow must have at least one node''],
          warnings = []\<rparr>"
  using empty_workflow_invalid [of "toN8nWorkflow ''Generated Workflow'' new_WorkflowStateManager"]
  by (simp add: manager_eval serialize_eval validator_eval)


section \<open>Claims about the error classifier\<close>

subsection \<open>C8: credential errors are not recoverable\<close>

text \<open>
  C8: every error message that contains \<open>credential\<close>, in any mix of upper and lower
  case, is classified as not recoverable, whatever else it contains.
\<close>

theorem credential_error_not_recoverable:
  "errorMessage = pre @ mid @ post \<Longrightarrow> toLowerCase mid = ''credential'' \<Longrightarrow>
     recoverable (analyzeValidationError errorMessage) = False"
proof -
  assume "errorMessage = pre @ mid @ post" and "toLowerCase mid = ''credential''"
  then have "str_includes (toLowerCase errorMessage) ''credential''"
    unfolding includes_toLowerCase_iff by blast
  then show ?thesis by (simp add: analyzeValidationError_def)
qed

theorem credential_error_not_recoverable_witness:
  "toLowerCase ''Credential'' = ''credential''
   \<and> recoverable (analyzeValidationError
        (''Missing required parameter: invalid connection, '' @ ''Credential'' @ '' not found''))
       = False"
  using credential_error_not_recoverable
    [of "''Missing required parameter: invalid connection, '' @ ''Credential'' @ '' not found''"
        "''Missing required parameter: invalid connection, ''" "''Credential''" "'' not found''"]
  by (simp add: toLowerCase_def toLowerChar_def)



section \<open>Properties of the tool surface and of the build loop\<close>

lemmas tools_eval =
  executeTool_def executeToolAsync_def toolSchemas_def asyncTools_def z_string_def z_number_def
  z_number_default0_def z_record_def z_record_optional_def issues_of_def invalid_type_def
  zod_error_message_def Object_prototype_keys_def

lemma toolSchemas_not_inherited:
  "toolName \<notin> set Object_prototype_keys \<Longrightarrow> toolSchemas toolName \<noteq> Inherited"
  by (simp add: toolSchemas_def)

lemma executeToolAsync_structured_result:
  "toolName \<notin> set Object_prototype_keys \<Longrightarrow>
     \<exists>r. fst (executeToolAsync baseUrl n8nClient toolName args s) = Inr r"
proof -
  assume "toolName \<notin> set Object_prototype_keys"
  then have n: "toolSchemas toolName \<noteq> Inherited" by (rule toolSchemas_not_inherited)
  show ?thesis
  proof (cases "toolSchemas toolName")
    case Undefined
    then show ?thesis by (simp add: executeToolAsync_def)
  next
    case (OwnSchema t)
    then show ?thesis
      by (cases "safeParse t args")
         (simp_all add: executeToolAsync_def split_beta)
  next
    case Inherited
    with n show ?thesis by simp
  qed
qed


lemma executeTool_structured_result:
  "toolName \<notin> set Object_prototype_keys \<Longrightarrow>
     \<exists>r. fst (executeTool baseUrl n8nClient toolName args s) = Inr r"
proof -
  assume "toolName \<notin> set Object_prototype_keys"
  then have n: "toolSchemas toolName \<noteq> Inherited" by (rule toolSchemas_not_inherited)
  show ?thesis
  proof (cases "toolSchemas toolName")
    case Undefined
    then show ?thesis by (simp add: executeTool_def)
  next
    case (OwnSchema t)
    then show ?thesis
      by (cases "safeParse t args")
         (simp_all add: executeTool_def split_beta)
  next
    case Inherited
    with n show ?thesis by simp
  qed
qed

lemma finalize_invalid_result:
  assumes "finalize maxRetries log0 attempts s = Done r"
    and "length (getNodes s) > 0"
    and "\<not> valid (validateWorkflow (toN8nWorkflow ''Generated Workflow'' s))"
  shows "build_success r = False
   \<and> requiresHumanInput r
       = Some (\<not> recoverable (analyzeValidationError (join [CHR 0x0A]
           (errors (validateWorkflow (toN8nWorkflow ''Generated Workflow'' s))))))
   \<and> humanInputReason r
       = suggestedAction (analyzeValidationError (join [CHR 0x0A]
           (errors (validateWorkflow (toN8nWorkflow ''Generated Workflow'' s)))))"
proof -
  define a where "a = analyzeValidationError (join [CHR 0x0A]
           (errors (validateWorkflow (toN8nWorkflow ''Generated Workflow'' s))))"
  from assms have "(if recoverable a \<and> attempts + 1 < maxRetries
      then Retry (buildRetryPrompt (join [CHR 0x0A]
           (errors (validateWorkflow (toN8nWorkflow ''Generated Workflow'' s)))) a) (attempts + 1)
      else Done \<lparr>build_success = False, workflow = None,
                  build_error = Some (''Generated workflow is invalid:'' @ [CHR 0x0A]
                     @ join [CHR 0x0A]
                         (errors (validateWorkflow (toN8nWorkflow ''Generated Workflow'' s)))),
                  validationWarnings = None, conversationLog = log0,
                  validationAttempts = Some (attempts + 1),
                  requiresHumanInput = Some (\<not> recoverable a),
                  humanInputReason = suggestedAction a\<rparr>) = Done r"
    unfolding finalize_def Let_def a_def by simp
  then show ?thesis
    unfolding a_def [symmetric] by (cases "recoverable a \<and> attempts + 1 < maxRetries") auto
qed

lemma slack_state_eval:
  "slack_state =
     \<lparr>nodes = [(''Slack'', \<lparr>node_id = ''node_1'', node_name = ''Slack'', node_type = ''slack'',
                              typeVersion = 1, position = (100, 100), parameters = [],
                              credentials = None\<rparr>)],
      connections = [], nodeCounter = 1\<rparr>"
  by (simp add: slack_state_def slack_args_def tools_eval manager_eval)

lemma slack_validation:
  "validateWorkflow (toN8nWorkflow ''Generated Workflow'' slack_state) =
     \<lparr>valid = False, errors = [slack_error], warnings = []\<rparr>"
  by (simp add: slack_state_eval slack_error_def serialize_eval validator_eval show_nat.simps
      digit_char_def)

lemma slack_analysis_eval: "analyzeValidationError slack_error = slack_analysis"
  by (simp add: slack_error_def node_type_message_def slack_analysis_def
      analyzeValidationError_def toLowerCase_def toLowerChar_def)

lemma slack_finalize:
  "finalize maxRetries log0 attempts slack_state =
     (if attempts + 1 < maxRetries
      then Retry (buildRetryPrompt slack_error slack_analysis) (attempts + 1)
      else Done ((slack_failure log0)\<lparr>validationAttempts := Some (attempts + 1)\<rparr>))"
proof -
  have n: "length (getNodes slack_state) > 0"
    by (simp add: slack_state_eval getNodes_def)
  have j: "join [CHR 0x0A] [slack_error] = slack_error" by simp
  show ?thesis
    unfolding finalize_def Let_def slack_validation
    using n by (simp add: j slack_analysis_eval) (simp add: slack_analysis_def slack_failure_def)
qed

lemma slack_final_turn:
  assumes "length messages \<noteq> 1" and "turnCount < 20"
  shows "fst (turn_loop default_env None retry_script turnCount messages log0 2 slack_state)
         = slack_failure (log0 @ [AssistantLog ''Done.''])"
  using assms
  by (subst turn_loop.simps)
     (simp add: MAX_TURNS_def retry_script_def default_env_def slack_finalize slack_failure_def)

lemma slack_retry_turn:
  assumes "length messages \<noteq> 1" and "turnCount < 19" and "attempts < 2"
  shows "turn_loop default_env None retry_script turnCount messages log0 attempts slack_state
         = turn_loop default_env None retry_script (turnCount + 1)
             (messages @ [AssistantContent [TextBlock ''Done.''],
                UserText (buildRetryPrompt slack_error slack_analysis)])
             (log0 @ [AssistantLog ''Done.'']) (attempts + 1) slack_state"
  using assms
  by (subst turn_loop.simps)
     (simp add: MAX_TURNS_def retry_script_def default_env_def slack_finalize)

lemma slack_first_turn:
  "\<exists>messages log0.
     turn_loop default_env None retry_script 0 [UserText userPrompt] [] 0 new_WorkflowStateManager
       = turn_loop default_env None retry_script 1 messages log0 0 slack_state
     \<and> length messages = 3"
  apply (subst turn_loop.simps)
  apply (simp add: MAX_TURNS_def retry_script_def default_env_def slack_state_eval slack_args_def
        tools_eval manager_eval)
  apply (rule exI, rule conjI, rule exI, rule refl)
  apply simp
  done

lemma slack_run:
  "\<exists>log0. fst (buildWorkflow default_env None retry_script userPrompt \<lparr>continueFrom = None\<rparr>
          new_WorkflowStateManager) = slack_failure log0"
proof -
  obtain m0 l0 where
    t1: "turn_loop default_env None retry_script 0 [UserText userPrompt] [] 0 new_WorkflowStateManager
          = turn_loop default_env None retry_script 1 m0 l0 0 slack_state"
    and len: "length m0 = 3"
    using slack_first_turn by blast
  define p where "p = [AssistantContent [TextBlock ''Done.''],
             UserText (buildRetryPrompt slack_error slack_analysis)]"
  define d where "d = [AssistantLog ''Done.'']"
  have t2: "turn_loop default_env None retry_script 1 m0 l0 0 slack_state
          = turn_loop default_env None retry_script (1 + 1) (m0 @ p) (l0 @ d) (0 + 1) slack_state"
    unfolding p_def d_def by (rule slack_retry_turn) (simp_all add: len)
  have t3: "turn_loop default_env None retry_script (1 + 1) (m0 @ p) (l0 @ d) (0 + 1) slack_state
          = turn_loop default_env None retry_script (1 + 1 + 1) ((m0 @ p) @ p) ((l0 @ d) @ d)
              (0 + 1 + 1) slack_state"
    unfolding p_def d_def by (rule slack_retry_turn) (simp_all add: len)
  have two: "(0::nat) + 1 + 1 = 2" by simp
  have t4: "fst (turn_loop default_env None retry_script (1 + 1 + 1) ((m0 @ p) @ p) ((l0 @ d) @ d)
              (0 + 1 + 1) slack_state)
          = slack_failure (((l0 @ d) @ d) @ d)"
    unfolding two d_def p_def by (rule slack_final_turn) (simp_all add: len)
  have r: "reset new_WorkflowStateManager = new_WorkflowStateManager"
    by (simp add: reset_def new_WorkflowStateManager_def)
  have "fst (buildWorkflow default_env None retry_script userPrompt \<lparr>continueFrom = None\<rparr>
          new_WorkflowStateManager)
      = fst (turn_loop default_env None retry_script 0 [UserText userPrompt] [] 0
               new_WorkflowStateManager)"
    by (simp add: buildWorkflow_def r)
  also have "\<dots> = slack_failure (((l0 @ d) @ d) @ d)"
    unfolding t1 t2 t3 by (rule t4)
  finally show ?thesis by blast
qed


section \<open>Claims about the tool surface and the build loop\<close>

subsection \<open>C9: tool execution and exceptions\<close>

text \<open>
  C9 does not hold for the code: the test for an unknown tool is a truthiness test of
  \<^verbatim>\<open>toolSchemas[toolName]\<close>, and for a name that every object inherits, such as
  \<open>constructor\<close>, the value read is an inherited function. Both \<^verbatim>\<open>executeTool\<close> and
  \<^verbatim>\<open>executeToolAsync\<close> then call its missing \<^verbatim>\<open>safeParse\<close> and throw a
  \<^verbatim>\<open>TypeError\<close>, whatever the arguments and the state, instead of returning the
  structured result for an unknown tool. For every other name the result is structured
  (\<open>executeToolAsync_structured_result\<close>, \<open>executeTool_structured_result\<close>).
\<close>

theorem executeTool_inherited_property_throws:
  "executeTool baseUrl n8nClient ''constructor'' args s
     = (Inl (TypeError ''schema.safeParse is not a function''), s)
   \<and> executeToolAsync baseUrl n8nClient ''constructor'' args s
     = (Inl (TypeError ''schema.safeParse is not a function''), s)"
  by (simp add: executeTool_def executeToolAsync_def toolSchemas_def Object_prototype_keys_def)

subsection \<open>C1: validation failure in the finalize path\<close>

text \<open>
  C1 does not hold for the code when the retry budget is exhausted on a recoverable
  error: the result carries \<^verbatim>\<open>requiresHumanInput = !analysis.recoverable\<close>, which is
  false then. With the default budget of 3, the scripted run adds a node of type
  \<open>slack\<close> and ends three turns without a tool call; the third validation attempt ends
  the build with a failure whose \<open>requiresHumanInput\<close> is false, while
  \<open>humanInputReason\<close> holds the classifier's suggested action.
\<close>

theorem retries_exhausted_requires_no_human_input:
  "build_success (fst (buildWorkflow default_env None retry_script ''Post to Slack''
      \<lparr>continueFrom = None\<rparr> new_WorkflowStateManager)) = False
   \<and> build_error (fst (buildWorkflow default_env None retry_script ''Post to Slack''
      \<lparr>continueFrom = None\<rparr> new_WorkflowStateManager))
       = Some (''Generated workflow is invalid:'' @ [CHR 0x0A] @ ''nodes.0.type: ''
               @ node_type_message)
   \<and> validationAttempts (fst (buildWorkflow default_env None retry_script ''Post to Slack''
      \<lparr>continueFrom = None\<rparr> new_WorkflowStateManager)) = Some 3
   \<and> requiresHumanInput (fst (buildWorkflow default_env None retry_script ''Post to Slack''
      \<lparr>continueFrom = None\<rparr> new_WorkflowStateManager)) = Some False
   \<and> humanInputReason (fst (buildWorkflow default_env None retry_script ''Post to Slack''
      \<lparr>continueFrom = None\<rparr> new_WorkflowStateManager))
       = Some ''Review the error message and fix the issue.''"
  using slack_run [of "''Post to Slack''"]
  by (auto simp: slack_failure_def slack_error_def)

end
